theory Spec2Isabelle
  imports Main "HOL-Library.Sublist"
begin


section \<open>JavaScript string primitives\<close>

text \<open>
  Strings are lists of characters with codes 0 to 255: Node decodes the request line and
  the header fields as latin1, so every string the server takes from a request has only
  such code units. On them \<open>toLowerCase\<close> maps \<open>A\<close> to \<open>Z\<close> and the capital letters
  U+00C0 to U+00DE (U+00D7 apart) to the letter 32 places on, and \<open>trim\<close> removes tab,
  line feed, vertical tab, form feed, carriage return, space and the no-break space
  U+00A0.
\<close>

definition str_includes :: "string \<Rightarrow> string \<Rightarrow> bool" where
  \<comment> \<open>\<open>s.includes(t)\<close>\<close>
  "str_includes s t = sublist t s"

definition startsWith :: "string \<Rightarrow> string \<Rightarrow> bool" where
  \<comment> \<open>\<open>s.startsWith(t)\<close>\<close>
  "startsWith s t = prefix t s"

definition endsWith :: "string \<Rightarrow> string \<Rightarrow> bool" where
  \<comment> \<open>\<open>s.endsWith(t)\<close>\<close>
  "endsWith s t = suffix t s"

definition upper_letters :: string where
  "upper_letters = ''ABCDEFGHIJKLMNOPQRSTUVWXYZ''"

definition lower_letters :: string where
  "lower_letters = ''abcdefghijklmnopqrstuvwxyz''"

definition lower_char :: "char \<Rightarrow> char" where
  "lower_char c =
     (case map_of (zip upper_letters lower_letters) c of
        Some d \<Rightarrow> d
      | None \<Rightarrow>
          (let n = (of_char c :: nat)
           in if 192 \<le> n \<and> n \<le> 222 \<and> n \<noteq> 215 then char_of (n + 32) else c))"

definition toLowerCase :: "string \<Rightarrow> string" where
  "toLowerCase s = map lower_char s"

definition is_space :: "char \<Rightarrow> bool" where
  "is_space c = (c \<in> set [CHR '' '', CHR 0x09, CHR 0x0A, CHR 0x0B, CHR 0x0C, CHR 0x0D, CHR 0xA0])"

definition trim :: "string \<Rightarrow> string" where
  "trim s = rev (dropWhile is_space (rev (dropWhile is_space s)))"

text \<open>\<open>s.split(c)\<close> for a one-character separator: never the empty list.\<close>

fun js_split :: "char \<Rightarrow> string \<Rightarrow> string list" where
  "js_split c [] = [[]]"
| "js_split c (x # xs) =
     (if x = c then [] # js_split c xs
      else (case js_split c xs of [] \<Rightarrow> [[x]] | p # ps \<Rightarrow> (x # p) # ps))"

text \<open>Truthiness of a value of type \<open>string | null | undefined\<close>.\<close>

definition truthy :: "string option \<Rightarrow> bool" where
  "truthy t = (case t of None \<Rightarrow> False | Some s \<Rightarrow> s \<noteq> [])"


section \<open>Requests, responses and the platform\<close>

text \<open>
  A header value of Node's \<open>IncomingHttpHeaders\<close> is \<open>string | string[] | undefined\<close>;
  \<open>cookie\<close>, \<open>content-type\<close> and \<open>host\<close> are typed \<open>string\<close> there.
\<close>

datatype hval = Single string | Multi "string list"

text \<open>
  A request as the server reads it. \<open>body_token\<close> is \<open>(req as any).body.token\<close> when
  a body was parsed by an earlier stage and has a string \<open>token\<close> field, \<open>None\<close> when
  \<open>body\<close> or \<open>body.token\<close> is missing.
\<close>

record request =
  url :: "string option"
  req_method :: "string option"
  headers :: "(string \<times> hval) list"
  body_token :: "string option"

definition header_string :: "request \<Rightarrow> string \<Rightarrow> string option" where
  "header_string req k = (case map_of (headers req) k of Some (Single s) \<Rightarrow> Some s | _ \<Rightarrow> None)"

definition url_includes :: "request \<Rightarrow> string \<Rightarrow> bool" where
  \<comment> \<open>\<open>req.url?.includes(t)\<close>, falsy when the url is undefined\<close>
  "url_includes req t = (case url req of None \<Rightarrow> False | Some u \<Rightarrow> str_includes u t)"

definition url_startsWith :: "request \<Rightarrow> string \<Rightarrow> bool" where
  "url_startsWith req t = (case url req of None \<Rightarrow> False | Some u \<Rightarrow> startsWith u t)"

definition url_text :: "request \<Rightarrow> string" where
  \<comment> \<open>\<open>${req.url}\<close> in a template string\<close>
  "url_text req = (case url req of None \<Rightarrow> ''undefined'' | Some u \<Rightarrow> u)"

definition base_of :: "request \<Rightarrow> string" where
  \<comment> \<open>\<open>`http://${req.headers.host || "localhost"}`\<close>\<close>
  "base_of req =
     ''http://'' @ (case header_string req ''host'' of
                      Some h \<Rightarrow> (if h = [] then ''localhost'' else h)
                    | None \<Rightarrow> ''localhost'')"

text \<open>The argument of \<open>JSON.stringify\<close> that a response body is made from.\<close>

datatype jv = JStr string | JNum nat

record response =
  status :: nat
  content_type :: "string option"
  body :: "(string \<times> jv) list"

text \<open>What a \<open>catch\<close> clause receives: an \<open>Error\<close> with its message, or another value.\<close>

datatype thrown = Error string | NonError

definition message_of :: "thrown \<Rightarrow> string" where
  \<comment> \<open>\<open>error instanceof Error ? error.message : 'Unknown error'\<close>\<close>
  "message_of e = (case e of Error m \<Rightarrow> m | NonError \<Rightarrow> ''Unknown error'')"

text \<open>
  The result of \<open>new URL(url, base).searchParams.get(key)\<close>: the constructor may throw,
  the parameter may be absent (\<open>null\<close>), or it has a value. The URL class belongs to the
  platform, so it is a parameter of the model (\<open>searchParam\<close> below, where \<open>None\<close> as
  the base stands for the one-argument constructor \<open>new URL(url)\<close>);
  \<open>plainSearchParam\<close> is the instance used to evaluate concrete requests.
\<close>

datatype lookup = Throws | Null | Val string

text \<open>A value of \<open>JSON.parse\<close>.\<close>

datatype json =
  JObject "(string \<times> json) list" | JArray "json list" | JString string | JNumber int
  | JBoolean bool | JNull


section \<open>Token validation (server, auth/tokenValidator)\<close>

record JwtConfig =
  issuer :: string
  audience :: string
  jwksUri :: string

record PartialJwtConfig =
  p_issuer :: "string option"
  p_audience :: "string option"
  p_jwksUri :: "string option"

definition merge_config :: "JwtConfig \<Rightarrow> PartialJwtConfig \<Rightarrow> JwtConfig" where
  \<comment> \<open>\<open>{ ...defaultConfig, ...config }\<close>\<close>
  "merge_config d c =
     \<lparr> issuer = (case p_issuer c of Some x \<Rightarrow> x | None \<Rightarrow> issuer d),
       audience = (case p_audience c of Some x \<Rightarrow> x | None \<Rightarrow> audience d),
       jwksUri = (case p_jwksUri c of Some x \<Rightarrow> x | None \<Rightarrow> jwksUri d) \<rparr>"

definition no_overrides :: PartialJwtConfig where
  "no_overrides = \<lparr> p_issuer = None, p_audience = None, p_jwksUri = None \<rparr>"

record JwtHeader =
  alg :: string
  kid :: "string option"

record JwtPayload =
  sub :: "string option"
  exp :: "int option"
  iat :: "int option"
  iss :: "string option"
  aud :: "string option"

record Jwt =
  header :: JwtHeader
  payload :: JwtPayload

record VerifyOptions =
  opt_issuer :: string
  opt_audience :: string
  algorithms :: "string list"

text \<open>
  The \<open>jsonwebtoken\<close> and \<open>jwks-rsa\<close> libraries and the process configuration:
  \<open>jwt_decode\<close> is \<open>jwt.decode(token, {complete: true})\<close> (\<open>None\<close> for \<open>null\<close>),
  \<open>signingKey\<close> is the outcome of \<open>client.getSigningKey(kid)\<close> followed by
  \<open>key.getPublicKey()\<close> for a JWKS uri, and \<open>checks\<close> is everything \<open>jwt.verify\<close>
  decides once the algorithm is admitted (signature, expiry, audience, issuer).
\<close>

record jwt_lib =
  defaultConfig :: JwtConfig
  jwt_decode :: "string \<Rightarrow> Jwt option"
  signingKey :: "string \<Rightarrow> string \<Rightarrow> thrown + string"
  checks :: "string \<Rightarrow> string \<Rightarrow> VerifyOptions \<Rightarrow> thrown + JwtPayload"

text \<open>
  Modelled from the spec: \<open>jwt.verify\<close> of the \<open>jsonwebtoken\<close> library, which is not
  among the sources. Only the algorithms of its \<open>algorithms\<close> option are accepted: a token
  whose header names another algorithm fails verification, whatever its signature bytes;
  a token that does not decode fails as well.
\<close>

definition jwt_verify :: "jwt_lib \<Rightarrow> string \<Rightarrow> string \<Rightarrow> VerifyOptions \<Rightarrow> thrown + JwtPayload" where
  "jwt_verify L token key opts =
     (case jwt_decode L token of
        None \<Rightarrow> Inl (Error ''jwt malformed'')
      | Some d \<Rightarrow>
          if alg (header d) \<in> set (algorithms opts) then checks L token key opts
          else Inl (Error ''invalid algorithm''))"

text \<open>
  \<open>verifyToken\<close>: the result of the promise (\<open>Inl\<close> a rejection) and the key lookups
  made on the way, as \<open>(kid, jwksUri)\<close> pairs.
\<close>

definition verifyToken ::
  "jwt_lib \<Rightarrow> string \<Rightarrow> PartialJwtConfig \<Rightarrow> (thrown + JwtPayload) \<times> (string \<times> string) list" where
  "verifyToken L token config =
     (let c = merge_config (defaultConfig L) config in
      case jwt_decode L token of
        None \<Rightarrow> (Inl (Error ''Invalid token format''), [])
      | Some decoded \<Rightarrow>
          if \<not> truthy (kid (header decoded))
          then (Inl (Error ''No key ID (kid) found in token header''), [])
          else
            (let k = the (kid (header decoded)) in
             case signingKey L k (jwksUri c) of
               Inl err \<Rightarrow> (Inl err, [(k, jwksUri c)])
             | Inr key \<Rightarrow>
                 (jwt_verify L token key
                    \<lparr> opt_issuer = issuer c, opt_audience = audience c,
                      algorithms = [''RS256''] \<rparr>,
                  [(k, jwksUri c)])))"

text \<open>The server's \<open>decodeToken\<close>: \<open>jwt.decode(token)\<close>, throwing on \<open>null\<close>.\<close>

definition decodeToken_server :: "jwt_lib \<Rightarrow> string \<Rightarrow> thrown + JwtPayload" where
  "decodeToken_server L token =
     (case jwt_decode L token of
        None \<Rightarrow> Inl (Error ''Invalid token format'')
      | Some d \<Rightarrow> Inr (payload d))"


section \<open>The auth gate (server, middleware/auth)\<close>

text \<open>
  \<open>getTransport\<close> is the session registry's lookup (module \<open>mcp\<close>, not among the
  sources) and \<open>handlePostMessage\<close> the transport's own handling of a posted message:
  it resolves, or it throws with \<open>res.writableEnded\<close> as given.
\<close>

datatype post_outcome = PostDone | PostThrew bool

record 't env =
  searchParam :: "string \<Rightarrow> string option \<Rightarrow> string \<Rightarrow> lookup"
  getTransport :: "string \<Rightarrow> 't option"
  handlePostMessage :: "'t \<Rightarrow> request \<Rightarrow> post_outcome"
  lib :: jwt_lib


subsection \<open>extractToken\<close>

definition authHeader :: "hval \<Rightarrow> string option" where
  \<comment> \<open>\<open>Array.isArray(value) ? value[0] : value\<close>\<close>
  "authHeader v = (case v of Single s \<Rightarrow> Some s | Multi [] \<Rightarrow> None | Multi (s # _) \<Rightarrow> Some s)"

definition bearer_value :: "hval \<Rightarrow> string option" where
  "bearer_value v =
     (case authHeader v of
        None \<Rightarrow> None
      | Some a \<Rightarrow> if a \<noteq> [] \<and> startsWith (toLowerCase a) ''bearer '' then Some (drop 7 a) else None)"

fun scan_headers :: "(string \<times> hval) list \<Rightarrow> string option" where
  "scan_headers [] = None"
| "scan_headers ((k, v) # hs) =
     (if toLowerCase k = ''authorization''
      then (case bearer_value v of Some t \<Rightarrow> Some t | None \<Rightarrow> scan_headers hs)
      else scan_headers hs)"

text \<open>
  The cookie loop: \<open>Some v\<close> when a cookie named \<open>access_token\<close> was met (the loop breaks
  there), with \<open>v\<close> the second piece of the split, \<open>None\<close> inside when there is none.
\<close>

fun scan_cookies :: "string list \<Rightarrow> string option option" where
  "scan_cookies [] = None"
| "scan_cookies (c # cs) =
     (case js_split CHR ''='' (trim c) of
        [] \<Rightarrow> scan_cookies cs
      | name # rest \<Rightarrow>
          if name = ''access_token''
          then Some (case rest of [] \<Rightarrow> None | v # _ \<Rightarrow> Some v)
          else scan_cookies cs)"

definition from_header :: "request \<Rightarrow> string option \<times> string" where
  "from_header req =
     (case scan_headers (headers req) of
        Some t \<Rightarrow> (Some t, ''Authorization header'')
      | None \<Rightarrow> (None, ''none''))"

definition from_url ::
  "'t env \<Rightarrow> request \<Rightarrow> string option \<times> string \<Rightarrow> string option \<times> string" where
  "from_url E req ts =
     (if \<not> truthy (fst ts) \<and> url_includes req ''?''
      then (case searchParam E (the (url req)) (Some (base_of req)) ''access_token'' of
              Throws \<Rightarrow> ts
            | Null \<Rightarrow> (None, snd ts)
            | Val s \<Rightarrow> (Some s, if s \<noteq> [] then ''URL parameter'' else snd ts))
      else ts)"

definition from_cookie :: "request \<Rightarrow> string option \<times> string \<Rightarrow> string option \<times> string" where
  "from_cookie req ts =
     (if \<not> truthy (fst ts) \<and> truthy (header_string req ''cookie'')
      then (case scan_cookies (js_split CHR '';'' (the (header_string req ''cookie''))) of
              None \<Rightarrow> ts
            | Some v \<Rightarrow> (v, ''Cookie''))
      else ts)"

definition json_post :: "request \<Rightarrow> bool" where
  "json_post req =
     (req_method req = Some ''POST'' \<and>
      (case header_string req ''content-type'' of
         None \<Rightarrow> False
       | Some ct \<Rightarrow> str_includes ct ''application/json''))"

definition from_body :: "request \<Rightarrow> string option \<times> string \<Rightarrow> string option \<times> string" where
  "from_body req ts =
     (if \<not> truthy (fst ts) \<and> json_post req \<and> truthy (body_token req)
      then (body_token req, ''Request body'')
      else ts)"

definition extractToken :: "'t env \<Rightarrow> request \<Rightarrow> string option \<times> string" where
  "extractToken E req = from_body req (from_cookie req (from_url E req (from_header req)))"

text \<open>
  The sources \<open>extractToken\<close> consults, in the order it does: the header loop always
  runs, and each later block sits behind \<open>!token &&\<close>, so it looks at its source only
  when the token left by the blocks before it is empty or null.
\<close>

definition extractToken_reads :: "'t env \<Rightarrow> request \<Rightarrow> string list" where
  "extractToken_reads E req =
     (let s0 = from_header req; s1 = from_url E req s0; s2 = from_cookie req s1
      in [''Authorization header''] @
         (if truthy (fst s0) then [] else [''URL parameter'']) @
         (if truthy (fst s1) then [] else [''Cookie'']) @
         (if truthy (fst s2) then [] else [''Request body'']))"


subsection \<open>authMiddleware and simpleAuthMiddleware\<close>

datatype event = EvGetTransport string | EvExtract | EvVerify string | EvDecode string

datatype outcome = CallNext | Respond response | Return

definition skip_auth :: "request \<Rightarrow> bool" where
  "skip_auth req =
     (url_includes req ''/.well-known/'' \<or> req_method req = Some ''OPTIONS'' \<or>
      url req = Some ''/ping'')"

text \<open>
  The session shortcut: the events of the attempt and whether the request is admitted.
  \<open>getTransport\<close> is only called for a truthy \<open>sessionId\<close>; a throwing URL constructor
  is caught and the request goes on to the credential check.
\<close>

definition session_shortcut :: "'t env \<Rightarrow> request \<Rightarrow> event list \<times> bool" where
  "session_shortcut E req =
     (if url_startsWith req ''/messages'' \<and> url_includes req ''sessionId=''
      then (case searchParam E (the (url req)) (Some (base_of req)) ''sessionId'' of
              Val sid \<Rightarrow>
                if sid \<noteq> [] then ([EvGetTransport sid], getTransport E sid \<noteq> None)
                else ([], False)
            | _ \<Rightarrow> ([], False))
      else ([], False))"

definition handleUnauthorized :: "request \<Rightarrow> string \<Rightarrow> outcome" where
  "handleUnauthorized req errorMessage =
     (if url_includes req ''/.well-known/'' then Return
      else Respond \<lparr> status = 401, content_type = Some ''application/json'',
                     body = [(''error'', JStr errorMessage)] \<rparr>)"

definition date_ok :: "int \<Rightarrow> bool" where
  \<comment> \<open>\<open>new Date(s * 1000).toISOString()\<close> does not throw a RangeError\<close>
  "date_ok s = (\<bar>s * 1000\<bar> \<le> 8640000000000000)"

definition after_verify_full :: "JwtPayload \<Rightarrow> thrown option" where
  \<comment> \<open>the logging after a successful verification in \<open>authMiddleware\<close>\<close>
  "after_verify_full p =
     (case exp p of
        None \<Rightarrow> Some (Error ''Invalid time value'')
      | Some e \<Rightarrow> if date_ok e then None else Some (Error ''Invalid time value''))"

definition after_verify_simple :: "JwtPayload \<Rightarrow> thrown option" where
  \<comment> \<open>the logging after a successful verification in \<open>simpleAuthMiddleware\<close>\<close>
  "after_verify_simple p =
     (case after_verify_full p of
        Some e \<Rightarrow> Some e
      | None \<Rightarrow>
          (case iat p of
             None \<Rightarrow> None
           | Some i \<Rightarrow> if i = 0 \<or> date_ok i then None else Some (Error ''Invalid time value'')))"

definition verify_step :: "'t env \<Rightarrow> string \<Rightarrow> (JwtPayload \<Rightarrow> thrown option) \<Rightarrow> thrown option" where
  \<comment> \<open>the \<open>try\<close> block around \<open>await verifyToken(token)\<close>: what its \<open>catch\<close> receives\<close>
  "verify_step E token logging =
     (case fst (verifyToken (lib E) token no_overrides) of
        Inl e \<Rightarrow> Some e
      | Inr p \<Rightarrow> logging p)"

definition is_expired :: "thrown \<Rightarrow> bool" where
  \<comment> \<open>\<open>error instanceof Error && error.message.includes("expired")\<close>\<close>
  "is_expired e = (case e of Error m \<Rightarrow> str_includes m ''expired'' | NonError \<Rightarrow> False)"

text \<open>
  A run of a middleware gives the events it went through and its outcome: the
  continuation is invoked, a response is written, or it returns without either. The
  continuation the router passes is an async function, so invoking it never throws; the
  outer \<open>catch\<close> of both middlewares (the 500 response) is then only reached by a
  throwing registry lookup or a non-string token, which the types of the model exclude.
\<close>

definition authMiddleware :: "'t env \<Rightarrow> request \<Rightarrow> event list \<times> outcome" where
  "authMiddleware E req =
     (if skip_auth req then ([], CallNext)
      else
        (let (evs, admitted) = session_shortcut E req in
         if admitted then (evs, CallNext)
         else
           (let (token, source) = extractToken E req in
            if \<not> truthy token \<or> trim (the token) = []
            then (evs @ [EvExtract],
                  handleUnauthorized req (''No valid token provided for request to '' @ url_text req))
            else
              (case verify_step E (the token) after_verify_full of
                 None \<Rightarrow> (evs @ [EvExtract, EvVerify (the token)], CallNext)
               | Some e \<Rightarrow>
                   (evs @ [EvExtract, EvVerify (the token)],
                    if is_expired e then handleUnauthorized req ''Unauthorized - Token expired''
                    else handleUnauthorized req (''Token verification failed: '' @ message_of e))))))"

definition unauthorized_simple :: "string \<Rightarrow> outcome" where
  "unauthorized_simple msg =
     Respond \<lparr> status = 401, content_type = None,
               body = [(''error'', JStr ''Unauthorized''), (''code'', JNum 401),
                       (''message'', JStr msg)] \<rparr>"

definition simpleAuthMiddleware :: "'t env \<Rightarrow> request \<Rightarrow> bool \<Rightarrow> event list \<times> outcome" where
  "simpleAuthMiddleware E req validateToken =
     (if skip_auth req then ([], CallNext)
      else
        (let (evs, admitted) = session_shortcut E req in
         if admitted then (evs, CallNext)
         else
           (let (token, source) = extractToken E req in
            if \<not> truthy token \<or> trim (the token) = []
            then (evs @ [EvExtract], unauthorized_simple ''No valid token provided'')
            else if validateToken
            then
              (case verify_step E (the token) after_verify_simple of
                 None \<Rightarrow> (evs @ [EvExtract, EvVerify (the token)], CallNext)
               | Some e \<Rightarrow>
                   (evs @ [EvExtract, EvVerify (the token)],
                    unauthorized_simple (''Invalid token: '' @ message_of e)))
            else (evs @ [EvExtract, EvDecode (the token)], CallNext))))"



section \<open>The messages route (server, routes/sse)\<close>

definition cors_content_type :: "request \<Rightarrow> string option" where
  \<comment> \<open>the \<open>Content-Type\<close> that \<open>setCorsHeaders\<close> leaves on the response\<close>
  "cors_content_type req =
     (if req_method req = Some ''OPTIONS'' then None
      else if url_includes req ''/sse'' then Some ''text/event-stream''
      else Some ''application/json'')"

datatype 't handled = HandlerThrows | Replied response | Relayed 't "response option"

definition error_reply :: "request \<Rightarrow> nat \<Rightarrow> string \<Rightarrow> response" where
  \<comment> \<open>\<open>res.writeHead(n).end(JSON.stringify({ error: msg }))\<close> after \<open>setCorsHeaders\<close>\<close>
  "error_reply req n msg =
     \<lparr> status = n, content_type = cors_content_type req, body = [(''error'', JStr msg)] \<rparr>"

definition sseMessagesHandler :: "'t env \<Rightarrow> request \<Rightarrow> string \<Rightarrow> 't handled" where
  "sseMessagesHandler E req u =
     (case searchParam E u (if startsWith u ''http'' then None else Some (base_of req))
             ''sessionId'' of
        Throws \<Rightarrow> HandlerThrows
      | Null \<Rightarrow> Replied (error_reply req 400 ''No sessionId provided'')
      | Val sessionId \<Rightarrow>
          if sessionId = [] then Replied (error_reply req 400 ''No sessionId provided'')
          else
            (case getTransport E sessionId of
               None \<Rightarrow> Replied (error_reply req 404 ''Session not found or expired'')
             | Some activeTransport \<Rightarrow>
                 (case handlePostMessage E activeTransport req of
                    PostDone \<Rightarrow> Relayed activeTransport None
                  | PostThrew ended \<Rightarrow>
                      Relayed activeTransport
                        (if ended then None
                         else Some (error_reply req 500 ''Internal server error'')))))"


section \<open>The request router (server, server/router)\<close>

text \<open>
  A route's path is a string or a regular expression, the latter given by its \<open>test\<close>.
  For one request, a middleware is the sequence of things it does: it ends the response
  (\<open>res.writeHead(n).end(b)\<close>), invokes its continuation (awaiting or returning the
  promise, or dropping it), or throws; a handler ends the response or throws. Each runs
  to completion when called. \<open>writeHead\<close> on a response that was ended throws.
  The state records the responses written, the invocations of the terminal handler,
  each middleware invocation with \<open>res.writableEnded\<close> at that moment, and the
  rejections that nobody awaited.
\<close>

datatype pattern = PString string | PRegExp "string \<Rightarrow> bool"

datatype hact = HEnd nat string | HThrow string

datatype action = End nat string | Next bool | Throw string

record route =
  r_method :: string
  path :: pattern
  handler :: "hact list"

record rstate =
  writableEnded :: bool
  written :: "(nat \<times> string) list"
  handler_calls :: nat
  invoked :: "(nat \<times> bool) list"
  unhandled :: "thrown list"

definition fresh :: rstate where
  "fresh = \<lparr> writableEnded = False, written = [], handler_calls = 0, invoked = [],
              unhandled = [] \<rparr>"

definition end_response :: "nat \<Rightarrow> string \<Rightarrow> rstate \<Rightarrow> rstate" where
  "end_response n b s = s\<lparr> writableEnded := True, written := written s @ [(n, b)] \<rparr>"

fun run_handler :: "hact list \<Rightarrow> rstate \<Rightarrow> rstate \<times> thrown option" where
  "run_handler [] s = (s, None)"
| "run_handler (HEnd n b # as) s =
     (if writableEnded s then (s, Some (Error ''ERR_HTTP_HEADERS_SENT''))
      else run_handler as (end_response n b s))"
| "run_handler (HThrow m # as) s = (s, Some (Error m))"

definition finalHandler :: "hact list \<Rightarrow> rstate \<Rightarrow> rstate \<times> thrown option" where
  "finalHandler h s = run_handler h (s\<lparr> handler_calls := Suc (handler_calls s) \<rparr>)"

definition enter :: "nat \<Rightarrow> rstate \<Rightarrow> rstate" where
  "enter i s = s\<lparr> invoked := invoked s @ [(i, writableEnded s)] \<rparr>"

fun exec ::
  "hact list \<Rightarrow> nat \<Rightarrow> action list \<Rightarrow> action list list \<Rightarrow> rstate \<Rightarrow> rstate \<times> thrown option" where
  "exec h i [] rest s = (s, None)"
| "exec h i (End n b # as) rest s =
     (if writableEnded s then (s, Some (Error ''ERR_HTTP_HEADERS_SENT''))
      else exec h i as rest (end_response n b s))"
| "exec h i (Throw m # as) rest s = (s, Some (Error m))"
| "exec h i (Next awaited # as) rest s =
     (case (if writableEnded s then (s, None)
            else (case rest of
                    [] \<Rightarrow> finalHandler h s
                  | m # ms \<Rightarrow> exec h (Suc i) m ms (enter (Suc i) s))) of
        (s', None) \<Rightarrow> exec h i as rest s'
      | (s', Some e) \<Rightarrow>
          if awaited then (s', Some e)
          else exec h i as rest (s'\<lparr> unhandled := unhandled s' @ [e] \<rparr>))"

text \<open>
  \<open>executeMiddlewareChain(req, res, index, finalHandler)\<close>, with \<open>ms\<close> the middleware
  from \<open>index\<close> on.
\<close>

definition executeMiddlewareChain ::
  "hact list \<Rightarrow> nat \<Rightarrow> action list list \<Rightarrow> rstate \<Rightarrow> rstate \<times> thrown option" where
  "executeMiddlewareChain h index ms s =
     (case ms of
        [] \<Rightarrow> finalHandler h s
      | m # rest \<Rightarrow> exec h index m rest (enter index s))"

definition isMatch :: "pattern \<Rightarrow> string \<Rightarrow> bool" where
  "isMatch p u =
     (case p of
        PString sp \<Rightarrow>
          if sp = ''*'' then True
          else if endsWith sp ''*'' then startsWith u (butlast sp)
          else sp = u
      | PRegExp test \<Rightarrow> test u)"

definition route_matches :: "route \<Rightarrow> string \<Rightarrow> string \<Rightarrow> bool" where
  "route_matches r m u = ((r_method r = ''ALL'' \<or> r_method r = m) \<and> isMatch (path r) u)"

definition dispatch :: "action list list \<Rightarrow> route \<Rightarrow> rstate \<Rightarrow> rstate \<times> thrown option" where
  "dispatch mws r s =
     (if mws \<noteq> []
      then (case executeMiddlewareChain (handler r) 0 mws s of
              (s', None) \<Rightarrow> (s', None)
            | (s', Some e) \<Rightarrow>
                (if writableEnded s' then s' else end_response 500 ''Internal Server Error'' s',
                 None))
      else finalHandler (handler r) s)"

fun match_routes ::
  "action list list \<Rightarrow> route list \<Rightarrow> string \<Rightarrow> string \<Rightarrow> rstate \<Rightarrow> bool \<times> rstate \<times> thrown option" where
  "match_routes mws [] m u s = (False, s, None)"
| "match_routes mws (r # rs) m u s =
     (if route_matches r m u then (True, dispatch mws r s)
      else match_routes mws rs m u s)"

definition handleRequest ::
  "action list list \<Rightarrow> route list \<Rightarrow> request \<Rightarrow> rstate \<Rightarrow> bool \<times> rstate \<times> thrown option" where
  "handleRequest mws routes req s =
     (if \<not> truthy (url req) \<or> \<not> truthy (req_method req) then (False, s, None)
      else match_routes mws routes (the (req_method req)) (the (url req)) s)"


section \<open>Token decoding (client, auth/token)\<close>

record decoded =
  d_header :: json
  d_payload :: json
  hasSignature :: bool

text \<open>
  \<open>Buffer.from(s, "base64").toString()\<close>, which never throws, and \<open>JSON.parse\<close>, which
  throws on text that is not JSON (\<open>None\<close>). Both belong to the platform and are
  parameters of the model.
\<close>

record codec =
  base64_text :: "string \<Rightarrow> string"
  json_parse :: "string \<Rightarrow> json option"

definition url_safe_char :: "char \<Rightarrow> char" where
  "url_safe_char c = (if c = CHR ''-'' then CHR ''+'' else if c = CHR ''_'' then CHR ''/'' else c)"

definition padded_base64 :: "string \<Rightarrow> string" where
  \<comment> \<open>padding added, then \<open>-\<close> and \<open>_\<close> replaced\<close>
  "padded_base64 b64 =
     (let padding = (if length b64 mod 4 = 0 then 0 else 4 - length b64 mod 4);
          padded = b64 @ replicate padding CHR ''=''
      in map url_safe_char padded)"

definition could_not_parse :: json where
  "could_not_parse = JObject [(''error'', JString ''Could not parse JSON'')]"

text \<open>
  \<open>decodeBase64Part\<close>: the argument is \<open>undefined\<close> (\<open>None\<close>) when the token has no such
  segment, and reading its \<open>length\<close> throws a TypeError outside the inner \<open>try\<close>.
\<close>

definition decodeBase64Part :: "codec \<Rightarrow> string option \<Rightarrow> thrown + json" where
  "decodeBase64Part C b64 =
     (case b64 of
        None \<Rightarrow> Inl (Error ''Cannot read properties of undefined'')
      | Some s \<Rightarrow>
          (case json_parse C (base64_text C (padded_base64 s)) of
             None \<Rightarrow> Inr could_not_parse
           | Some v \<Rightarrow> Inr v))"

definition nth_or_undefined :: "'a list \<Rightarrow> nat \<Rightarrow> 'a option" where
  "nth_or_undefined xs i = (if i < length xs then Some (xs ! i) else None)"

definition invalid_token_format :: decoded where
  "invalid_token_format =
     \<lparr> d_header = JObject [(''error'', JString ''Invalid token format'')],
       d_payload = JObject [(''error'', JString ''Invalid token format'')],
       hasSignature = False \<rparr>"

definition decodeToken_try :: "codec \<Rightarrow> string \<Rightarrow> thrown + decoded" where
  \<comment> \<open>the body of the \<open>try\<close> block\<close>
  "decodeToken_try C token =
     (let parts = js_split CHR ''.'' token;
          headerBase64 = nth_or_undefined parts 0;
          payloadBase64 = nth_or_undefined parts 1;
          signatureBase64 = nth_or_undefined parts 2
      in case decodeBase64Part C headerBase64 of
           Inl e \<Rightarrow> Inl e
         | Inr h \<Rightarrow>
             (case decodeBase64Part C payloadBase64 of
                Inl e \<Rightarrow> Inl e
              | Inr p \<Rightarrow>
                  Inr \<lparr> d_header = h, d_payload = p,
                        hasSignature = truthy signatureBase64 \<rparr>))"

definition decodeToken :: "codec \<Rightarrow> string \<Rightarrow> decoded" where
  "decodeToken C token =
     (case decodeToken_try C token of Inl e \<Rightarrow> invalid_token_format | Inr d \<Rightarrow> d)"


section \<open>The authorization flow (client, auth/oauth)\<close>

definition CLIENT_ID :: string where
  "CLIENT_ID = ''mcp-client''"

definition CLIENT_SECRET :: string where
  "CLIENT_SECRET = ''mcp-client-secret''"

definition REDIRECT_URI :: string where
  "REDIRECT_URI = ''http://localhost:3000/callback''"


subsection \<open>The callback listener of openAuthorizationWindow\<close>

text \<open>
  A value of \<open>querystring.parse\<close>: a string, or an array when the key is repeated.
  \<open>querystring.parse\<close> itself is a parameter; \<open>plain_querystring\<close> is the instance for
  query strings without escapes.
\<close>

datatype qval = QStr string | QArr "string list"

definition q_truthy :: "qval option \<Rightarrow> bool" where
  "q_truthy v = (case v of None \<Rightarrow> False | Some (QStr s) \<Rightarrow> s \<noteq> [] | Some (QArr xs) \<Rightarrow> True)"

fun comma_join :: "string list \<Rightarrow> string" where
  "comma_join [] = []"
| "comma_join [x] = x"
| "comma_join (x # y # ys) = x @ '','' @ comma_join (y # ys)"

definition q_string :: "qval \<Rightarrow> string" where
  \<comment> \<open>\<open>String(v)\<close>\<close>
  "q_string v = (case v of QStr s \<Rightarrow> s | QArr xs \<Rightarrow> comma_join xs)"

datatype page = ErrorPage string string | SuccessPage string | NotFoundPage

datatype settlement = Resolved string | Rejected string

text \<open>
  The listener: whether the server still accepts connections, the state of the promise
  (the first \<open>resolve\<close> or \<open>reject\<close> settles it), how often the handler called
  \<open>resolve\<close> or \<open>reject\<close>, the pages it rendered, and whether an exception escaped it.
\<close>

record listener =
  listening :: bool
  settled :: "settlement option"
  settle_calls :: nat
  pages :: "page list"
  uncaught :: bool

definition listening_server :: listener where
  \<comment> \<open>after \<open>server.listen(PORT)\<close>\<close>
  "listening_server =
     \<lparr> listening = True, settled = None, settle_calls = 0, pages = [], uncaught = False \<rparr>"

definition settle :: "settlement \<Rightarrow> listener \<Rightarrow> listener" where
  "settle v L =
     L\<lparr> settled := (case settled L of None \<Rightarrow> Some v | Some w \<Rightarrow> Some w),
        settle_calls := Suc (settle_calls L) \<rparr>"

definition render :: "page \<Rightarrow> listener \<Rightarrow> listener" where
  "render p L = L\<lparr> pages := pages L @ [p] \<rparr>"

definition query_of :: "string \<Rightarrow> string" where
  \<comment> \<open>\<open>req.url.split("?")[1] || ""\<close>\<close>
  "query_of u = (case js_split CHR ''?'' u of _ # q # _ \<Rightarrow> q | _ \<Rightarrow> [])"

definition code_preview :: "string \<Rightarrow> string" where
  \<comment> \<open>\<open>`${code.substring(0, 10)}...${code.substring(code.length - 10)}`\<close>\<close>
  "code_preview c = take 10 c @ ''...'' @ drop (length c - 10) c"

text \<open>
  One request to the callback server. A closed server accepts no connection. When
  \<open>code\<close> is an array, \<open>code.substring\<close> throws after \<open>writeHead(200)\<close>, and the
  \<open>writeHead(400)\<close> of the \<open>catch\<close> block throws in turn, out of the handler.
\<close>

definition callback_request ::
  "(string \<Rightarrow> (string \<times> qval) list) \<Rightarrow> listener \<Rightarrow> string option \<Rightarrow> listener" where
  "callback_request parse L u =
     (if \<not> listening L \<or> uncaught L then L
      else if \<not> (case u of None \<Rightarrow> False | Some x \<Rightarrow> startsWith x ''/callback'')
      then render NotFoundPage L
      else
        (let query = map_of (parse (query_of (the u))) in
         if q_truthy (query ''error'')
         then
           (let errorMessage = (case query ''error_description'' of
                                  None \<Rightarrow> []
                                | Some d \<Rightarrow> q_string d)
            in settle (Rejected (''Authorization error: '' @ q_string (the (query ''error''))))
                 (render (ErrorPage (q_string (the (query ''error''))) errorMessage) L))
         else if \<not> q_truthy (query ''code'')
         then settle (Rejected ''No authorization code received'')
                (render (ErrorPage ''missing_code'' ''No authorization code received'') L)
         else
           (case the (query ''code'') of
              QStr code \<Rightarrow>
                settle (Resolved code) ((render (SuccessPage (code_preview code)) L)\<lparr> listening := False \<rparr>)
            | QArr xs \<Rightarrow> L\<lparr> uncaught := True \<rparr>)))"

definition serve :: "(string \<Rightarrow> (string \<times> qval) list) \<Rightarrow> string list \<Rightarrow> listener" where
  "serve parse us = foldl (callback_request parse) listening_server (map Some us)"


subsection \<open>The token exchange\<close>

record http_response =
  resp_status :: nat
  resp_body :: string

definition ok :: "http_response \<Rightarrow> bool" where
  \<comment> \<open>\<open>response.ok\<close>\<close>
  "ok r = (200 \<le> resp_status r \<and> resp_status r \<le> 299)"

definition digit_char :: "nat \<Rightarrow> char" where
  "digit_char n = ''0123456789'' ! n"

function dec :: "nat \<Rightarrow> string" where
  "dec n = (if n < 10 then [digit_char n] else dec (n div 10) @ [digit_char (n mod 10)])"
  by pat_completeness auto
termination
  by (relation "measure id") auto
declare dec.simps [simp del]

text \<open>
  The network and the parser of the client: \<open>post_form\<close> is the \<open>fetch\<close> of the token
  request (endpoint, the credentials of the Basic header, the form fields), rejecting or
  giving a response; \<open>response_json\<close> is \<open>response.json()\<close> on the body; \<open>authorize\<close> is
  the promise of \<open>openAuthorizationWindow\<close> for an authorization endpoint.
\<close>

record client_world =
  post_form :: "string \<Rightarrow> string \<times> string \<Rightarrow> (string \<times> string) list \<Rightarrow> thrown + http_response"
  response_json :: "string \<Rightarrow> json option"
  authorize :: "string \<Rightarrow> thrown + string"

definition tokenRequest :: "string \<Rightarrow> (string \<times> string) list" where
  "tokenRequest code =
     [(''grant_type'', ''authorization_code''), (''code'', code), (''client_id'', CLIENT_ID),
      (''client_secret'', CLIENT_SECRET), (''redirect_uri'', REDIRECT_URI)]"

definition field :: "json \<Rightarrow> string \<Rightarrow> json option" where
  \<comment> \<open>\<open>v[k]\<close> of a parsed object: the last member of that name\<close>
  "field v k = (case v of JObject ms \<Rightarrow> map_of (rev ms) k | _ \<Rightarrow> None)"

definition access_token :: "json \<Rightarrow> string option" where
  "access_token v = (case field v ''access_token'' of Some (JString t) \<Rightarrow> Some t | _ \<Rightarrow> None)"

definition exchangeCodeForToken :: "client_world \<Rightarrow> string \<Rightarrow> string \<Rightarrow> thrown + json" where
  "exchangeCodeForToken W code tokenEndpoint =
     (case post_form W tokenEndpoint (CLIENT_ID, CLIENT_SECRET) (tokenRequest code) of
        Inl e \<Rightarrow> Inl e
      | Inr tokenResponse \<Rightarrow>
          if \<not> ok tokenResponse
          then Inl (Error (''Token exchange failed: '' @ dec (resp_status tokenResponse) @
                           '' - '' @ resp_body tokenResponse))
          else
            (case response_json W (resp_body tokenResponse) of
               None \<Rightarrow> Inl (Error ''Unexpected token in JSON'')
             | Some tokenData \<Rightarrow>
                 (case access_token tokenData of
                    None \<Rightarrow> Inl (Error ''token.substring is not a function'')
                  | Some token \<Rightarrow> Inr tokenData)))"

record ServerMetadata =
  authorization_endpoint :: string
  token_endpoint :: string

text \<open>
  \<open>startOAuthFlow\<close> from step 4 on, with the metadata that the two discovery requests
  of steps 1 to 3 returned: wait for the code, exchange it, return
  \<open>tokenData.access_token\<close>. The \<open>catch\<close> logs and throws the error again. The token
  data that \<open>exchangeCodeForToken\<close> returns always has a string \<open>access_token\<close>
  (\<open>exchange_has_token\<close>), so the last \<open>None\<close> case never occurs.
\<close>

definition startOAuthFlow :: "client_world \<Rightarrow> ServerMetadata \<Rightarrow> thrown + string" where
  "startOAuthFlow W serverMetadata =
     (case authorize W (authorization_endpoint serverMetadata) of
        Inl e \<Rightarrow> Inl e
      | Inr code \<Rightarrow>
          (case exchangeCodeForToken W code (token_endpoint serverMetadata) of
             Inl e \<Rightarrow> Inl e
           | Inr tokenData \<Rightarrow>
               (case access_token tokenData of
                  None \<Rightarrow> Inl (Error ''access_token is not a string'')
                | Some t \<Rightarrow> Inr t)))"


section \<open>Notions used in the statements\<close>

text \<open>
  What each of the four sources yields, read off the four blocks of \<open>extractToken\<close>,
  and the first of them that yields a non-empty value.
\<close>

definition header_source :: "request \<Rightarrow> string option" where
  "header_source req = scan_headers (headers req)"

definition url_source :: "'t env \<Rightarrow> request \<Rightarrow> string option" where
  "url_source E req =
     (if url_includes req ''?''
      then (case searchParam E (the (url req)) (Some (base_of req)) ''access_token'' of
              Val s \<Rightarrow> Some s | _ \<Rightarrow> None)
      else None)"

definition cookie_source :: "request \<Rightarrow> string option" where
  "cookie_source req =
     (if truthy (header_string req ''cookie'')
      then (case scan_cookies (js_split CHR '';'' (the (header_string req ''cookie''))) of
              Some v \<Rightarrow> v | None \<Rightarrow> None)
      else None)"

definition body_source :: "request \<Rightarrow> string option" where
  "body_source req = (if json_post req then body_token req else None)"

fun first_nonempty :: "(string option \<times> string) list \<Rightarrow> (string \<times> string) option" where
  "first_nonempty [] = None"
| "first_nonempty ((v, label) # xs) =
     (if truthy v then Some (the v, label) else first_nonempty xs)"

text \<open>The sources a scan in priority order consults: all up to the first non-empty one.\<close>

fun consulted :: "(string option \<times> string) list \<Rightarrow> string list" where
  "consulted [] = []"
| "consulted ((v, label) # xs) = label # (if truthy v then [] else consulted xs)"

definition sources :: "'t env \<Rightarrow> request \<Rightarrow> (string option \<times> string) list" where
  "sources E req =
     [(header_source req, ''Authorization header''), (url_source E req, ''URL parameter''),
      (cookie_source req, ''Cookie''), (body_source req, ''Request body'')]"

text \<open>
  The header source as the claim words it: the value must start with the prefix
  \<open>Bearer \<close>, compared as written.
\<close>

definition claimed_bearer_value :: "hval \<Rightarrow> string option" where
  "claimed_bearer_value v =
     (case authHeader v of
        None \<Rightarrow> None
      | Some a \<Rightarrow> if startsWith a ''Bearer '' then Some (drop 7 a) else None)"

fun claimed_scan_headers :: "(string \<times> hval) list \<Rightarrow> string option" where
  "claimed_scan_headers [] = None"
| "claimed_scan_headers ((k, v) # hs) =
     (if toLowerCase k = ''authorization''
      then (case claimed_bearer_value v of Some t \<Rightarrow> Some t | None \<Rightarrow> claimed_scan_headers hs)
      else claimed_scan_headers hs)"

definition claimed_sources :: "'t env \<Rightarrow> request \<Rightarrow> (string option \<times> string) list" where
  "claimed_sources E req =
     [(claimed_scan_headers (headers req), ''Authorization header''),
      (url_source E req, ''URL parameter''),
      (cookie_source req, ''Cookie''), (body_source req, ''Request body'')]"





text \<open>
  The base64 text of a base64url segment, as the encoding is specified: \<open>-\<close> stands for
  \<open>+\<close>, \<open>_\<close> for \<open>/\<close>, and the padding is as many \<open>=\<close> as bring the length to a
  multiple of four. A segment is base64url-encoded JSON when the text that this base64
  decodes to parses; \<open>part_value\<close> is then the parsed value, and the marker of
  \<open>decodeBase64Part\<close> otherwise.
\<close>

definition base64url_to_base64 :: "string \<Rightarrow> string" where
  "base64url_to_base64 s =
     map (\<lambda>c. if c = CHR ''-'' then CHR ''+'' else if c = CHR ''_'' then CHR ''/'' else c) s @
     replicate ((4 - length s mod 4) mod 4) CHR ''=''"

definition part_value :: "codec \<Rightarrow> string \<Rightarrow> json" where
  "part_value C s =
     (case json_parse C (base64_text C (base64url_to_base64 s)) of
        None \<Rightarrow> could_not_parse
      | Some v \<Rightarrow> v)"

text \<open>
  How often a middleware invokes its continuation, and the property of a run that every
  middleware invocation found the response not yet ended.
\<close>

fun count_next :: "action list \<Rightarrow> nat" where
  "count_next [] = 0"
| "count_next (Next a # as) = Suc (count_next as)"
| "count_next (x # as) = count_next as"

definition never_after_end :: "rstate \<Rightarrow> bool" where
  "never_after_end s = (\<forall>e \<in> set (invoked s). \<not> snd e)"


section \<open>Concrete platforms and inputs\<close>


subsection \<open>URL and query strings without escapes\<close>

text \<open>
  Instances of the platform's parsers for evaluating concrete inputs:
  \<open>searchParams.get\<close> and \<open>querystring.parse\<close> on query strings that need no decoding.
\<close>

fun first_param :: "string \<Rightarrow> string list \<Rightarrow> lookup" where
  "first_param k [] = Null"
| "first_param k (p # ps) =
     (case js_split CHR ''='' p of
        [] \<Rightarrow> first_param k ps
      | n # vs \<Rightarrow>
          if p \<noteq> [] \<and> n = k
          then Val (case vs of [] \<Rightarrow> [] | v # ws \<Rightarrow> foldl (\<lambda>a b. a @ ''='' @ b) v ws)
          else first_param k ps)"

definition plainSearchParam :: "string \<Rightarrow> string option \<Rightarrow> string \<Rightarrow> lookup" where
  \<comment> \<open>the query of a request target that has no percent-escape, no \<open>+\<close> and no fragment\<close>
  "plainSearchParam u base k =
     (case js_split CHR ''?'' u of
        [] \<Rightarrow> Null
      | _ # qs \<Rightarrow>
          (case qs of
             [] \<Rightarrow> Null
           | q # rest \<Rightarrow>
               first_param k (js_split CHR ''&'' (foldl (\<lambda>a b. a @ ''?'' @ b) q rest))))"

definition add_pair :: "(string \<times> qval) list \<Rightarrow> string \<times> string \<Rightarrow> (string \<times> qval) list" where
  "add_pair acc kv =
     (case map_of acc (fst kv) of
        None \<Rightarrow> acc @ [(fst kv, QStr (snd kv))]
      | Some old \<Rightarrow>
          map (\<lambda>(k, v). if k = fst kv
                         then (k, QArr ((case old of QStr s \<Rightarrow> [s] | QArr xs \<Rightarrow> xs) @ [snd kv]))
                         else (k, v)) acc)"

definition split_pair :: "string \<Rightarrow> string \<times> string" where
  "split_pair p = (takeWhile (\<lambda>c. c \<noteq> CHR ''='') p, drop 1 (dropWhile (\<lambda>c. c \<noteq> CHR ''='') p))"

definition plain_querystring :: "string \<Rightarrow> (string \<times> qval) list" where
  "plain_querystring q =
     foldl add_pair [] (map split_pair (filter (\<lambda>p. p \<noteq> []) (js_split CHR ''&'' q)))"


subsection \<open>A base64 and JSON codec\<close>

text \<open>
  Base64 decoding of ASCII text, and \<open>JSON.parse\<close> on the compact objects with string
  members that the examples use.
\<close>

definition base64_alphabet :: string where
  "base64_alphabet = ''ABCDEFGHIJKLMNOPQRSTUVWXYZabcdefghijklmnopqrstuvwxyz0123456789+/''"

definition base64_digit :: "char \<Rightarrow> nat option" where
  "base64_digit c = map_of (zip base64_alphabet [0 ..< 64]) c"

fun sextets_to_bytes :: "nat list \<Rightarrow> nat list" where
  "sextets_to_bytes (a # b # c # d # r) =
     [a * 4 + b div 16, (b mod 16) * 16 + c div 4, (c mod 4) * 64 + d] @ sextets_to_bytes r"
| "sextets_to_bytes [a, b, c] = [a * 4 + b div 16, (b mod 16) * 16 + c div 4]"
| "sextets_to_bytes [a, b] = [a * 4 + b div 16]"
| "sextets_to_bytes _ = []"

definition plain_base64_text :: "string \<Rightarrow> string" where
  \<comment> \<open>the digits before the first \<open>=\<close>, decoded to bytes; ASCII bytes are the text\<close>
  "plain_base64_text s =
     map char_of
       (sextets_to_bytes (List.map_filter base64_digit (takeWhile (\<lambda>c. c \<noteq> CHR ''='') s)))"

definition dquote :: char where
  "dquote = CHR 0x22"

definition unquote :: "string \<Rightarrow> string option" where
  "unquote s =
     (if 2 \<le> length s \<and> hd s = dquote \<and> last s = dquote \<and>
         dquote \<notin> set (butlast (tl s)) \<and> CHR 0x5C \<notin> set s
      then Some (butlast (tl s)) else None)"

definition flat_member :: "string \<Rightarrow> (string \<times> json) option" where
  "flat_member m =
     (case js_split CHR '':'' m of
        [k, v] \<Rightarrow>
          (case (unquote k, unquote v) of
             (Some k', Some v') \<Rightarrow> Some (k', JString v')
           | _ \<Rightarrow> None)
      | _ \<Rightarrow> None)"

definition flat_json_parse :: "string \<Rightarrow> json option" where
  \<comment> \<open>\<open>JSON.parse\<close> on compact objects of plain string members; other text is refused\<close>
  "flat_json_parse s =
     (if s = ''{}'' then Some (JObject [])
      else if 2 \<le> length s \<and> hd s = CHR ''{'' \<and> last s = CHR ''}''
      then (let ms = map flat_member (js_split CHR '','' (butlast (tl s)))
            in if None \<in> set ms then None else Some (JObject (map the ms)))
      else None)"

definition plain_codec :: codec where
  "plain_codec = \<lparr> base64_text = plain_base64_text, json_parse = flat_json_parse \<rparr>"

definition quoted :: "string \<Rightarrow> string" where
  "quoted s = dquote # s @ [dquote]"


subsection \<open>A server environment\<close>

text \<open>
  One open session \<open>s1\<close>, and a library double that knows six tokens: \<open>good\<close> verifies,
  \<open>old\<close> fails with the library's expiry message, \<open>forged\<close> with its signature message,
  \<open>hs\<close> is signed with HS256, the header of \<open>nokid\<close> has no key identifier, and the
  key of \<open>tls\<close> cannot be fetched because the certificate of the key server has expired.
\<close>

definition dex_config :: JwtConfig where
  "dex_config = \<lparr> issuer = ''http://localhost:5556/dex'', audience = ''mcp-client'',
                   jwksUri = ''http://localhost:5556/dex/keys'' \<rparr>"

definition some_payload :: JwtPayload where
  "some_payload = \<lparr> sub = Some ''alice'', exp = Some 2000000000, iat = Some 1700000000,
                     iss = Some ''http://localhost:5556/dex'', aud = Some ''mcp-client'' \<rparr>"

definition double_decode :: "string \<Rightarrow> Jwt option" where
  "double_decode t =
     (if t \<in> set [''good'', ''old'', ''forged'']
      then Some \<lparr> header = \<lparr> alg = ''RS256'', kid = Some ''k1'' \<rparr>, payload = some_payload \<rparr>
      else if t = ''hs''
      then Some \<lparr> header = \<lparr> alg = ''HS256'', kid = Some ''k1'' \<rparr>, payload = some_payload \<rparr>
      else if t = ''nokid''
      then Some \<lparr> header = \<lparr> alg = ''RS256'', kid = None \<rparr>, payload = some_payload \<rparr>
      else if t = ''tls''
      then Some \<lparr> header = \<lparr> alg = ''RS256'', kid = Some ''k2'' \<rparr>, payload = some_payload \<rparr>
      else None)"

definition double_key :: "string \<Rightarrow> string \<Rightarrow> thrown + string" where
  "double_key k uri =
     (if k = ''k1'' then Inr ''PUBLIC KEY''
      else if k = ''k2'' then Inl (Error ''certificate has expired'')
      else Inl (Error ''no such key''))"

definition double_checks :: "string \<Rightarrow> string \<Rightarrow> VerifyOptions \<Rightarrow> thrown + JwtPayload" where
  "double_checks t key opts =
     (if t = ''old'' then Inl (Error ''jwt expired'')
      else if t = ''forged'' then Inl (Error ''invalid signature'')
      else Inr some_payload)"

definition double_lib :: jwt_lib where
  "double_lib = \<lparr> defaultConfig = dex_config, jwt_decode = double_decode,
                    signingKey = double_key, checks = double_checks \<rparr>"

definition one_session :: "string \<Rightarrow> nat option" where
  "one_session sid = (if sid = ''s1'' then Some 7 else None)"

definition always_done :: "nat \<Rightarrow> request \<Rightarrow> post_outcome" where
  "always_done t req = PostDone"

definition demo_env :: "nat env" where
  "demo_env = \<lparr> searchParam = plainSearchParam, getTransport = one_session,
                  handlePostMessage = always_done, lib = double_lib \<rparr>"

definition mk_request :: "string \<Rightarrow> string \<Rightarrow> (string \<times> hval) list \<Rightarrow> request" where
  "mk_request m u hs = \<lparr> url = Some u, req_method = Some m, headers = hs, body_token = None \<rparr>"


subsection \<open>Requests, tokens and routes\<close>

text \<open>A discovery request carrying a forged token, and a preflight request.\<close>

definition wk_request :: request where
  "wk_request = mk_request ''GET'' ''/.well-known/oauth-protected-resource''
                  [(''authorization'', Single ''Bearer forged'')]"

definition preflight_request :: request where
  "preflight_request = mk_request ''OPTIONS'' ''/sse'' []"

definition open_session_request :: request where
  "open_session_request = mk_request ''POST'' ''/messages?sessionId=s1'' []"

definition closed_session_request :: request where
  "closed_session_request = mk_request ''POST'' ''/messages?sessionId=s2'' []"

definition lower_bearer_request :: request where
  "lower_bearer_request =
     mk_request ''GET'' ''/sse?access_token=xyz'' [(''authorization'', Single ''bearer abc'')]"

text \<open>A request with no bearer header, a token cookie and a body token: the cookie wins.\<close>

definition cookie_and_body_request :: request where
  "cookie_and_body_request =
     \<lparr> url = Some ''/messages?x=1'', req_method = Some ''POST'',
       headers = [(''content-type'', Single ''application/json''),
                  (''cookie'', Single ''theme=dark; access_token=ccc''),
                  (''Authorization'', Single ''Basic abc'')],
       body_token = Some ''bbb'' \<rparr>"




definition alice_token :: string where
  "alice_token = ''eyJhbGciOiJSUzI1NiIsImtpZCI6ImsxIn0'' @ ''.'' @ ''eyJzdWIiOiJhbGljZSJ9'' @ ''.'' @ ''c2ln''"

definition sse_route :: route where
  \<comment> \<open>\<open>router.get("/sse", sseConnectionHandler)\<close>: the handler leaves the response open\<close>
  "sse_route = \<lparr> r_method = ''GET'', path = PString ''/sse'', handler = [] \<rparr>"

definition messages_route :: route where
  \<comment> \<open>\<open>router.post("/messages*", sseMessagesHandler)\<close>, here answering 404\<close>
  "messages_route =
     \<lparr> r_method = ''POST'', path = PString ''/messages*'', handler = [HEnd 404 ''not found''] \<rparr>"

definition catch_all_route :: route where
  "catch_all_route = \<lparr> r_method = ''ALL'', path = PString ''*'', handler = [HEnd 200 ''ok''] \<rparr>"

definition sse_get :: request where
  "sse_get = mk_request ''GET'' ''/sse'' []"

definition messages_post :: request where
  "messages_post = mk_request ''POST'' ''/messages?sessionId=s1'' []"

definition server_routes :: "route list" where
  "server_routes = [sse_route, messages_route, catch_all_route]"


subsection \<open>A token endpoint\<close>

text \<open>
  A token endpoint that accepts the code \<open>good-code\<close> and answers 400 to any other, and
  an authorization step that yields \<open>good-code\<close> for one endpoint only.
\<close>

definition token_body :: string where
  "token_body =
     ''{'' @ quoted ''access_token'' @ '':'' @ quoted ''tok123'' @ '','' @
     quoted ''token_type'' @ '':'' @ quoted ''bearer'' @ ''}''"

definition double_post :: "string \<Rightarrow> string \<times> string \<Rightarrow> (string \<times> string) list \<Rightarrow> thrown + http_response" where
  "double_post ep cred form =
     (if map_of form ''code'' = Some ''good-code''
      then Inr \<lparr> resp_status = 200, resp_body = token_body \<rparr>
      else Inr \<lparr> resp_status = 400, resp_body = ''invalid_grant'' \<rparr>)"

definition double_authorize :: "string \<Rightarrow> thrown + string" where
  "double_authorize ep = (if ep = ''http://idp/auth'' then Inr ''good-code'' else Inr ''stale-code'')"

definition double_world :: client_world where
  "double_world = \<lparr> post_form = double_post, response_json = flat_json_parse,
                     authorize = double_authorize \<rparr>"

definition good_metadata :: ServerMetadata where
  "good_metadata = \<lparr> authorization_endpoint = ''http://idp/auth'', token_endpoint = ''http://idp/token'' \<rparr>"

definition stale_metadata :: ServerMetadata where
  "stale_metadata = \<lparr> authorization_endpoint = ''http://idp/old'', token_endpoint = ''http://idp/token'' \<rparr>"


section \<open>The auth gate: exemptions and the session shortcut\<close>

lemma skip_authI:
  "url_includes req ''/.well-known/'' \<or> req_method req = Some ''OPTIONS'' \<Longrightarrow> skip_auth req"
  by (auto simp: skip_auth_def)

text \<open>
  Claim C1. A request whose URL contains a well-known discovery path, or whose method is
  OPTIONS, is allowed by both \<open>authMiddleware\<close> and \<open>simpleAuthMiddleware\<close>: the
  continuation is invoked and the run has no event at all, so no session lookup, no
  credential extraction and no verification took place, whatever the request carries.
\<close>

theorem discovery_and_preflight_allowed:
  assumes "url_includes req ''/.well-known/'' \<or> req_method req = Some ''OPTIONS''"
  shows "authMiddleware E req = ([], CallNext) \<and> simpleAuthMiddleware E req v = ([], CallNext)"
  using skip_authI [OF assms] by (simp add: authMiddleware_def simpleAuthMiddleware_def)

lemma wk_request_includes: "url_includes wk_request ''/.well-known/''"
  by code_simp

lemma preflight_method: "req_method preflight_request = Some ''OPTIONS''"
  by code_simp

theorem discovery_and_preflight_allowed_witness:
  "url_includes wk_request ''/.well-known/'' \<and>
   req_method preflight_request = Some ''OPTIONS'' \<and>
   authMiddleware demo_env wk_request = ([], CallNext) \<and>
   simpleAuthMiddleware demo_env wk_request True = ([], CallNext) \<and>
   authMiddleware demo_env preflight_request = ([], CallNext) \<and>
   simpleAuthMiddleware demo_env preflight_request True = ([], CallNext)"
  using discovery_and_preflight_allowed [of wk_request demo_env True]
    discovery_and_preflight_allowed [of preflight_request demo_env True]
    wk_request_includes preflight_method
  by simp

lemma session_shortcut_admits:
  assumes "url req = Some u" "startsWith u ''/messages''" "str_includes u ''sessionId=''"
    and "searchParam E u (Some (base_of req)) ''sessionId'' = Val sid" "sid \<noteq> []"
    and "getTransport E sid = Some t"
  shows "session_shortcut E req = ([EvGetTransport sid], True)"
  using assms by (simp add: session_shortcut_def url_startsWith_def url_includes_def)

text \<open>
  Claim C2. A request to a \<open>/messages\<close> path whose \<open>sessionId\<close> query parameter names a
  registered transport is allowed by both middlewares, and the only event of the run is
  the registry lookup: no credential is extracted or verified, whatever the method and
  the headers of the request are (in particular for a POST without an Authorization
  header). When the \<open>sessionId\<close> names no registered transport, \<open>sseMessagesHandler\<close>
  answers 404 with the body \<open>{error: "Session not found or expired"}\<close>.
\<close>

theorem open_session_bypasses_credentials:
  assumes "url req = Some u" "startsWith u ''/messages''" "str_includes u ''sessionId=''"
    and "searchParam E u (Some (base_of req)) ''sessionId'' = Val sid" "sid \<noteq> []"
  shows "(getTransport E sid = Some t \<longrightarrow>
            snd (authMiddleware E req) = CallNext \<and>
            snd (simpleAuthMiddleware E req v) = CallNext \<and>
            set (fst (authMiddleware E req)) \<subseteq> {EvGetTransport sid} \<and>
            set (fst (simpleAuthMiddleware E req v)) \<subseteq> {EvGetTransport sid}) \<and>
         (getTransport E sid = None \<longrightarrow>
            sseMessagesHandler E req u =
              Replied \<lparr> status = 404, content_type = cors_content_type req,
                        body = [(''error'', JStr ''Session not found or expired'')] \<rparr>)"
proof (intro conjI impI)
  assume t: "getTransport E sid = Some t"
  note sc = session_shortcut_admits [OF assms t]
  show "snd (authMiddleware E req) = CallNext"
    by (simp add: authMiddleware_def sc)
  show "snd (simpleAuthMiddleware E req v) = CallNext"
    by (simp add: simpleAuthMiddleware_def sc)
  show "set (fst (authMiddleware E req)) \<subseteq> {EvGetTransport sid}"
    by (simp add: authMiddleware_def sc)
  show "set (fst (simpleAuthMiddleware E req v)) \<subseteq> {EvGetTransport sid}"
    by (simp add: simpleAuthMiddleware_def sc)
next
  assume n: "getTransport E sid = None"
  have "\<not> startsWith u ''http''"
    using assms(2) by (auto simp: startsWith_def prefix_def)
  then show "sseMessagesHandler E req u =
      Replied \<lparr> status = 404, content_type = cors_content_type req,
                body = [(''error'', JStr ''Session not found or expired'')] \<rparr>"
    using assms n by (simp add: sseMessagesHandler_def error_reply_def)
qed

lemma open_session_facts:
  "url open_session_request = Some ''/messages?sessionId=s1''"
  "startsWith ''/messages?sessionId=s1'' ''/messages''"
  "str_includes ''/messages?sessionId=s1'' ''sessionId=''"
  "searchParam demo_env ''/messages?sessionId=s1'' (Some (base_of open_session_request))
     ''sessionId'' = Val ''s1''"
  "getTransport demo_env ''s1'' = Some 7"
  by code_simp+

lemma closed_session_facts:
  "url closed_session_request = Some ''/messages?sessionId=s2''"
  "startsWith ''/messages?sessionId=s2'' ''/messages''"
  "str_includes ''/messages?sessionId=s2'' ''sessionId=''"
  "searchParam demo_env ''/messages?sessionId=s2'' (Some (base_of closed_session_request))
     ''sessionId'' = Val ''s2''"
  "getTransport demo_env ''s2'' = None"
  by code_simp+

theorem open_session_bypasses_credentials_witness:
  "header_string open_session_request ''authorization'' = None \<and>
   getTransport demo_env ''s1'' = Some 7 \<and>
   snd (authMiddleware demo_env open_session_request) = CallNext \<and>
   snd (simpleAuthMiddleware demo_env open_session_request True) = CallNext \<and>
   set (fst (authMiddleware demo_env open_session_request)) \<subseteq> {EvGetTransport ''s1''} \<and>
   set (fst (simpleAuthMiddleware demo_env open_session_request True))
     \<subseteq> {EvGetTransport ''s1''} \<and>
   getTransport demo_env ''s2'' = None \<and>
   sseMessagesHandler demo_env closed_session_request ''/messages?sessionId=s2'' =
     Replied \<lparr> status = 404, content_type = cors_content_type closed_session_request,
               body = [(''error'', JStr ''Session not found or expired'')] \<rparr>"
proof -
  have "header_string open_session_request ''authorization'' = None"
    by code_simp
  then show ?thesis
    using open_session_bypasses_credentials
        [OF open_session_facts(1-4), of 7 True]
      open_session_bypasses_credentials
        [OF closed_session_facts(1-4), of 7 True]
      open_session_facts(5) closed_session_facts(5)
    by simp
qed


section \<open>The auth gate: the priority order of extractToken\<close>

lemma from_url_keeps: "truthy (fst ts) \<Longrightarrow> from_url E req ts = ts"
  by (simp add: from_url_def)

lemma from_cookie_keeps: "truthy (fst ts) \<Longrightarrow> from_cookie req ts = ts"
  by (simp add: from_cookie_def)

lemma from_body_keeps: "truthy (fst ts) \<Longrightarrow> from_body req ts = ts"
  by (simp add: from_body_def)

lemma from_header_truthy:
  "truthy (header_source req) \<Longrightarrow>
   from_header req = (header_source req, ''Authorization header'')"
  by (auto simp: from_header_def header_source_def truthy_def split: option.splits)

lemma from_header_falsy:
  "\<not> truthy (header_source req) \<Longrightarrow> \<not> truthy (fst (from_header req))"
  by (auto simp: from_header_def header_source_def truthy_def split: option.splits)

lemma from_url_truthy:
  "\<not> truthy (fst ts) \<Longrightarrow> truthy (url_source E req) \<Longrightarrow>
   from_url E req ts = (url_source E req, ''URL parameter'')"
  by (auto simp: from_url_def url_source_def truthy_def split: lookup.splits if_splits)

lemma from_url_falsy:
  "\<not> truthy (fst ts) \<Longrightarrow> \<not> truthy (url_source E req) \<Longrightarrow>
   \<not> truthy (fst (from_url E req ts))"
  by (auto simp: from_url_def url_source_def truthy_def split: lookup.splits if_splits)

lemma from_cookie_truthy:
  "\<not> truthy (fst ts) \<Longrightarrow> truthy (cookie_source req) \<Longrightarrow>
   from_cookie req ts = (cookie_source req, ''Cookie'')"
  by (auto simp: from_cookie_def cookie_source_def split: option.splits if_splits)
     (simp_all add: truthy_def)

lemma from_cookie_falsy:
  "\<not> truthy (fst ts) \<Longrightarrow> \<not> truthy (cookie_source req) \<Longrightarrow>
   \<not> truthy (fst (from_cookie req ts))"
  by (auto simp: from_cookie_def cookie_source_def split: option.splits if_splits)

lemma from_body_truthy:
  "\<not> truthy (fst ts) \<Longrightarrow> truthy (body_source req) \<Longrightarrow>
   from_body req ts = (body_source req, ''Request body'')"
  by (auto simp: from_body_def body_source_def truthy_def split: option.splits if_splits)

lemma from_body_falsy:
  "\<not> truthy (fst ts) \<Longrightarrow> \<not> truthy (body_source req) \<Longrightarrow>
   \<not> truthy (fst (from_body req ts))"
  by (auto simp: from_body_def body_source_def truthy_def split: option.splits if_splits)

lemma truthy_the: "truthy v \<Longrightarrow> v = Some (the v)"
  by (cases v) (simp_all add: truthy_def)

lemma extractToken_first_nonempty:
  "(case first_nonempty (sources E req) of
      Some (t, label) \<Rightarrow> extractToken E req = (Some t, label)
    | None \<Rightarrow> \<not> truthy (fst (extractToken E req)))"
proof (cases "truthy (header_source req)")
  case True
  then show ?thesis
    using truthy_the [OF True]
    by (simp add: sources_def extractToken_def from_header_truthy from_url_keeps
        from_cookie_keeps from_body_keeps)
next
  case h: False
  note fh = from_header_falsy [OF h]
  show ?thesis
  proof (cases "truthy (url_source E req)")
    case True
    then show ?thesis
      using truthy_the [OF True] h
      by (simp add: sources_def extractToken_def from_url_truthy [OF fh]
          from_cookie_keeps from_body_keeps)
  next
    case u: False
    note fu = from_url_falsy [OF fh u]
    show ?thesis
    proof (cases "truthy (cookie_source req)")
      case True
      then show ?thesis
        using truthy_the [OF True] h u
        by (simp add: sources_def extractToken_def from_cookie_truthy [OF fu] from_body_keeps)
    next
      case c: False
      note fc = from_cookie_falsy [OF fu c]
      show ?thesis
      proof (cases "truthy (body_source req)")
        case True
        then show ?thesis
          using truthy_the [OF True] h u c
          by (simp add: sources_def extractToken_def from_body_truthy [OF fc])
      next
        case False
        then show ?thesis
          using h u c from_body_falsy [OF fc False]
          by (simp add: sources_def extractToken_def)
      qed
    qed
  qed
qed

text \<open>
  Claim C3 as stated fails: the code compares the prefix after lower-casing the header
  value, so \<open>authorization: bearer abc\<close> yields the token \<open>abc\<close> from the header, where
  a prefix \<open>Bearer \<close> compared as written would pass on to the URL parameter.
\<close>

theorem extractToken_priority_counterexample:
  "first_nonempty (claimed_sources demo_env lower_bearer_request) = Some (''xyz'', ''URL parameter'') \<and>
   extractToken demo_env lower_bearer_request = (Some ''abc'', ''Authorization header'')"
  by code_simp

lemma from_header_iff: "truthy (fst (from_header req)) = truthy (header_source req)"
  using from_header_truthy [of req] from_header_falsy [of req]
  by (cases "truthy (header_source req)") simp_all

lemma from_url_iff:
  "\<not> truthy (fst ts) \<Longrightarrow> truthy (fst (from_url E req ts)) = truthy (url_source E req)"
  using from_url_truthy [of ts E req] from_url_falsy [of ts E req]
  by (cases "truthy (url_source E req)") simp_all

lemma from_cookie_iff:
  "\<not> truthy (fst ts) \<Longrightarrow> truthy (fst (from_cookie req ts)) = truthy (cookie_source req)"
  using from_cookie_truthy [of ts req] from_cookie_falsy [of ts req]
  by (cases "truthy (cookie_source req)") simp_all

lemma extractToken_reads_consulted:
  "extractToken_reads E req = consulted (sources E req)"
proof (cases "truthy (header_source req)")
  case True
  then have "truthy (fst (from_header req))" by (simp add: from_header_iff)
  with True show ?thesis
    by (simp add: extractToken_reads_def sources_def Let_def from_url_keeps from_cookie_keeps)
next
  case h: False
  then have fh: "\<not> truthy (fst (from_header req))" by (simp add: from_header_iff)
  show ?thesis
  proof (cases "truthy (url_source E req)")
    case True
    then have "truthy (fst (from_url E req (from_header req)))"
      by (simp add: from_url_iff [OF fh])
    with True h fh show ?thesis
      by (simp add: extractToken_reads_def sources_def Let_def from_cookie_keeps)
  next
    case u: False
    then have fu: "\<not> truthy (fst (from_url E req (from_header req)))"
      by (simp add: from_url_iff [OF fh])
    from h fh u fu from_cookie_iff [OF fu, of req] show ?thesis
      by (simp add: extractToken_reads_def sources_def Let_def)
  qed
qed

text \<open>
  Claim C3, amended. \<open>extractToken\<close> scans the Authorization header (name and
  \<open>bearer \<close> prefix both matched case-insensitively), then the \<open>access_token\<close> URL
  parameter, then the \<open>access_token\<close> cookie, then, for a POST with a JSON content type,
  the \<open>token\<close> field of the parsed body. The first source that yields a non-empty value
  gives the returned token and the recorded label, and the sources after it are not
  consulted: the sources read are those up to and including the first non-empty one.
  When no source yields a non-empty value the returned token is empty or null.
\<close>

theorem extractToken_priority:
  "(first_nonempty (sources E req) = Some (t, label) \<longrightarrow> extractToken E req = (Some t, label)) \<and>
   (first_nonempty (sources E req) = None \<longrightarrow> \<not> truthy (fst (extractToken E req))) \<and>
   extractToken_reads E req = consulted (sources E req) \<and>
   (truthy (header_source req) \<longrightarrow> extractToken_reads E req = [''Authorization header'']) \<and>
   (\<not> truthy (header_source req) \<and> truthy (url_source E req) \<longrightarrow>
      extractToken_reads E req = [''Authorization header'', ''URL parameter'']) \<and>
   (\<not> truthy (header_source req) \<and> \<not> truthy (url_source E req) \<and> truthy (cookie_source req) \<longrightarrow>
      extractToken_reads E req = [''Authorization header'', ''URL parameter'', ''Cookie''])"
  using extractToken_first_nonempty [of E req]
  by (auto split: option.splits simp: extractToken_reads_consulted sources_def)

lemma cookie_and_body_sources:
  "first_nonempty (sources demo_env cookie_and_body_request) = Some (''ccc'', ''Cookie'')"
  by code_simp

lemma cookie_and_body_consulted:
  "consulted (sources demo_env cookie_and_body_request) =
     [''Authorization header'', ''URL parameter'', ''Cookie'']"
  "truthy (body_source cookie_and_body_request)"
  by code_simp+

theorem extractToken_priority_witness:
  "first_nonempty (sources demo_env cookie_and_body_request) = Some (''ccc'', ''Cookie'') \<and>
   extractToken demo_env cookie_and_body_request = (Some ''ccc'', ''Cookie'') \<and>
   truthy (body_source cookie_and_body_request) \<and>
   extractToken_reads demo_env cookie_and_body_request =
     [''Authorization header'', ''URL parameter'', ''Cookie'']"
  using extractToken_priority [of demo_env cookie_and_body_request "''ccc''" "''Cookie''"]
    cookie_and_body_sources cookie_and_body_consulted
  by simp


section \<open>The auth gate: expired credentials\<close>











section \<open>Token validation: algorithm and key identifier\<close>

text \<open>
  Claim C5. \<open>verifyToken\<close> hands the library the one-element allow-list \<open>["RS256"]\<close>.
  For a token that decodes: if its header names any other algorithm, verification fails,
  also when every other check of the library would pass; if its header has no key
  identifier, verification fails with the error
  \<open>No key ID (kid) found in token header\<close> and no signing key was looked up; and a
  verification that succeeds was of an RS256 token with a key identifier.
\<close>

theorem verifyToken_algorithm_and_kid:
  assumes "jwt_decode L tok = Some d"
  shows "(alg (header d) \<noteq> ''RS256'' \<longrightarrow> (\<exists>e. fst (verifyToken L tok c) = Inl e)) \<and>
         (\<not> truthy (kid (header d)) \<longrightarrow>
            verifyToken L tok c = (Inl (Error ''No key ID (kid) found in token header''), [])) \<and>
         (\<forall>p. fst (verifyToken L tok c) = Inr p \<longrightarrow>
            alg (header d) = ''RS256'' \<and> truthy (kid (header d)))"
proof -
  have a: "\<exists>e. fst (verifyToken L tok c) = Inl e" if "alg (header d) \<noteq> ''RS256''"
    using assms that
    by (auto simp: verifyToken_def jwt_verify_def Let_def split: sum.splits)
  have k: "verifyToken L tok c = (Inl (Error ''No key ID (kid) found in token header''), [])"
    if "\<not> truthy (kid (header d))"
    using assms that by (simp add: verifyToken_def Let_def)
  have r: "alg (header d) = ''RS256'' \<and> truthy (kid (header d))"
    if "fst (verifyToken L tok c) = Inr p" for p
  proof -
    have "truthy (kid (header d))"
      using k that by (cases "truthy (kid (header d))") auto
    moreover have "alg (header d) = ''RS256''"
      using a that by (cases "alg (header d) = ''RS256''") auto
    ultimately show ?thesis by simp
  qed
  from a k r show ?thesis by blast
qed

lemma hs_token_facts:
  "jwt_decode double_lib ''hs'' =
     Some \<lparr> header = \<lparr> alg = ''HS256'', kid = Some ''k1'' \<rparr>, payload = some_payload \<rparr>"
  "jwt_decode double_lib ''nokid'' =
     Some \<lparr> header = \<lparr> alg = ''RS256'', kid = None \<rparr>, payload = some_payload \<rparr>"
  "jwt_decode double_lib ''good'' =
     Some \<lparr> header = \<lparr> alg = ''RS256'', kid = Some ''k1'' \<rparr>, payload = some_payload \<rparr>"
  by code_simp+

lemma hs_checks_pass:
  "checks double_lib ''hs'' ''PUBLIC KEY''
     \<lparr> opt_issuer = ''http://localhost:5556/dex'', opt_audience = ''mcp-client'',
       algorithms = [''RS256''] \<rparr> = Inr some_payload"
  by code_simp

lemma good_verifies: "fst (verifyToken double_lib ''good'' no_overrides) = Inr some_payload"
  by code_simp

theorem verifyToken_algorithm_and_kid_witness:
  "jwt_decode double_lib ''hs'' =
     Some \<lparr> header = \<lparr> alg = ''HS256'', kid = Some ''k1'' \<rparr>, payload = some_payload \<rparr> \<and>
   checks double_lib ''hs'' ''PUBLIC KEY''
     \<lparr> opt_issuer = ''http://localhost:5556/dex'', opt_audience = ''mcp-client'',
       algorithms = [''RS256''] \<rparr> = Inr some_payload \<and>
   (\<exists>e. fst (verifyToken double_lib ''hs'' no_overrides) = Inl e) \<and>
   verifyToken double_lib ''nokid'' no_overrides =
     (Inl (Error ''No key ID (kid) found in token header''), []) \<and>
   fst (verifyToken double_lib ''good'' no_overrides) = Inr some_payload"
  using verifyToken_algorithm_and_kid [OF hs_token_facts(1), of no_overrides]
    verifyToken_algorithm_and_kid [OF hs_token_facts(2), of no_overrides]
    verifyToken_algorithm_and_kid [OF hs_token_facts(3), of no_overrides]
    hs_token_facts hs_checks_pass good_verifies
  by (simp add: truthy_def)


section \<open>Token decoding on the client\<close>

lemma js_split_no_sep: "c \<notin> set t \<Longrightarrow> js_split c t = [t]"
  by (induction t) auto

lemma js_split_append: "c \<notin> set a \<Longrightarrow> js_split c (a @ c # b) = a # js_split c b"
  by (induction a) auto

lemma js_split_three:
  assumes "c \<notin> set h" "c \<notin> set p" "c \<notin> set s"
  shows "js_split c (h @ c # p @ c # s) = [h, p, s]"
  using assms by (simp add: js_split_append js_split_no_sep)

lemma js_split_nonempty: "js_split c t \<noteq> []"
  by (induction t) (auto split: list.splits)

lemma padded_base64_standard: "padded_base64 s = base64url_to_base64 s"
proof -
  have n: "(if length s mod 4 = 0 then 0 else 4 - length s mod 4) = (4 - length s mod 4) mod 4"
    by (cases "length s mod 4 = 0") auto
  have m: "map url_safe_char s =
      map (\<lambda>c. if c = CHR ''-'' then CHR ''+'' else if c = CHR ''_'' then CHR ''/'' else c) s"
    by (simp add: url_safe_char_def)
  have e: "url_safe_char CHR ''='' = CHR ''=''"
    by (simp add: url_safe_char_def)
  show ?thesis
    unfolding padded_base64_def base64url_to_base64_def Let_def n
    by (simp only: map_append map_replicate m e)
qed

lemma decodeBase64Part_defined: "decodeBase64Part C (Some s) = Inr (part_value C s)"
  by (simp add: decodeBase64Part_def part_value_def padded_base64_standard split: option.splits)

lemma decodeBase64Part_undefined:
  "decodeBase64Part C None = Inl (Error ''Cannot read properties of undefined'')"
  by (simp add: decodeBase64Part_def)

lemma decodeToken_try_one_segment:
  assumes "js_split CHR ''.'' token = [x]"
  shows "decodeToken_try C token = Inl (Error ''Cannot read properties of undefined'')"
  using assms
  by (simp add: decodeToken_try_def nth_or_undefined_def Let_def
      decodeBase64Part_defined decodeBase64Part_undefined)

lemma decodeToken_try_two_or_more:
  assumes "js_split CHR ''.'' token = h # p # rest"
  shows "decodeToken_try C token =
           Inr \<lparr> d_header = part_value C h, d_payload = part_value C p,
                 hasSignature = (case rest of [] \<Rightarrow> False | s # _ \<Rightarrow> s \<noteq> []) \<rparr>"
  using assms
  by (cases rest)
     (simp_all add: decodeToken_try_def nth_or_undefined_def Let_def
        decodeBase64Part_defined truthy_def)

lemma decodeToken_one_segment:
  assumes "js_split CHR ''.'' token = [x]"
  shows "decodeToken C token = invalid_token_format"
  using decodeToken_try_one_segment [OF assms] by (simp add: decodeToken_def)

lemma decodeToken_two_or_more:
  assumes "js_split CHR ''.'' token = h # p # rest"
  shows "decodeToken C token =
           \<lparr> d_header = part_value C h, d_payload = part_value C p,
             hasSignature = (case rest of [] \<Rightarrow> False | s # _ \<Rightarrow> s \<noteq> []) \<rparr>"
  using decodeToken_try_two_or_more [OF assms] by (simp add: decodeToken_def)

lemma catch_taken_iff:
  "(\<exists>e. decodeToken_try C token = Inl e) \<longleftrightarrow> (\<exists>x. js_split CHR ''.'' token = [x])"
proof (cases "js_split CHR ''.'' token")
  case Nil
  with js_split_nonempty show ?thesis by blast
next
  case (Cons h tl)
  show ?thesis
  proof (cases tl)
    case Nil
    with Cons decodeToken_try_one_segment [of token h C] show ?thesis by simp
  next
    case (Cons p rest)
    with \<open>js_split CHR ''.'' token = h # tl\<close> decodeToken_try_two_or_more [of token h p rest C]
    show ?thesis by simp
  qed
qed

text \<open>
  Claim C6, amended. \<open>decodeToken\<close> returns a record for every input and never raises.
  A token of three dot-separated segments whose first two are base64url-encoded JSON
  gives the decoded header and payload, with \<open>hasSignature\<close> telling whether the third
  segment is non-empty. Any token of at least two segments gives, for header and payload,
  the value decoded from the first and the second segment, each replaced by
  \<open>{error: "Could not parse JSON"}\<close> when the segment is not base64url-encoded JSON, and
  \<open>hasSignature\<close> is false when the third segment is missing or empty. The \<open>catch\<close> of
  \<open>decodeToken\<close>, which returns the invalid-format sentinel, is taken exactly when the
  input has no second segment.
\<close>

theorem decodeToken_cases:
  "(\<forall>h p s hv pv.
      token = h @ ''.'' @ p @ ''.'' @ s \<and>
      CHR ''.'' \<notin> set h \<and> CHR ''.'' \<notin> set p \<and> CHR ''.'' \<notin> set s \<and>
      json_parse C (base64_text C (base64url_to_base64 h)) = Some hv \<and>
      json_parse C (base64_text C (base64url_to_base64 p)) = Some pv \<longrightarrow>
      decodeToken C token = \<lparr> d_header = hv, d_payload = pv, hasSignature = (s \<noteq> []) \<rparr>) \<and>
   (\<forall>h p rest.
      js_split CHR ''.'' token = h # p # rest \<longrightarrow>
      decodeToken C token =
        \<lparr> d_header = part_value C h, d_payload = part_value C p,
          hasSignature = (case rest of [] \<Rightarrow> False | s # _ \<Rightarrow> s \<noteq> []) \<rparr>) \<and>
   (\<forall>x. js_split CHR ''.'' token = [x] \<longrightarrow> decodeToken C token = invalid_token_format) \<and>
   ((\<exists>e. decodeToken_try C token = Inl e) \<longleftrightarrow> (\<exists>x. js_split CHR ''.'' token = [x])) \<and>
   decodeToken C token =
     (case decodeToken_try C token of Inl e \<Rightarrow> invalid_token_format | Inr d \<Rightarrow> d)"
proof (intro conjI allI impI)
  fix h p s hv pv
  assume a: "token = h @ ''.'' @ p @ ''.'' @ s \<and>
      CHR ''.'' \<notin> set h \<and> CHR ''.'' \<notin> set p \<and> CHR ''.'' \<notin> set s \<and>
      json_parse C (base64_text C (base64url_to_base64 h)) = Some hv \<and>
      json_parse C (base64_text C (base64url_to_base64 p)) = Some pv"
  then have "js_split CHR ''.'' token = [h, p, s]"
    using js_split_three [of "CHR ''.''" h p s] by simp
  from decodeToken_two_or_more [OF this, of C] a
  show "decodeToken C token = \<lparr> d_header = hv, d_payload = pv, hasSignature = (s \<noteq> []) \<rparr>"
    by (simp add: part_value_def)
next
  fix h p rest
  assume "js_split CHR ''.'' token = h # p # rest"
  then show "decodeToken C token =
        \<lparr> d_header = part_value C h, d_payload = part_value C p,
          hasSignature = (case rest of [] \<Rightarrow> False | s # _ \<Rightarrow> s \<noteq> []) \<rparr>"
    by (rule decodeToken_two_or_more)
next
  fix x
  assume "js_split CHR ''.'' token = [x]"
  then show "decodeToken C token = invalid_token_format"
    by (rule decodeToken_one_segment)
next
  show "(\<exists>e. decodeToken_try C token = Inl e) \<longleftrightarrow> (\<exists>x. js_split CHR ''.'' token = [x])"
    by (rule catch_taken_iff)
next
  show "decodeToken C token =
     (case decodeToken_try C token of Inl e \<Rightarrow> invalid_token_format | Inr d \<Rightarrow> d)"
    by (simp add: decodeToken_def)
qed

lemma alice_token_facts:
  "CHR ''.'' \<notin> set ''eyJhbGciOiJSUzI1NiIsImtpZCI6ImsxIn0''"
  "CHR ''.'' \<notin> set ''eyJzdWIiOiJhbGljZSJ9''"
  "CHR ''.'' \<notin> set ''c2ln''"
  "json_parse plain_codec (base64_text plain_codec (base64url_to_base64 ''eyJhbGciOiJSUzI1NiIsImtpZCI6ImsxIn0''))
     = Some (JObject [(''alg'', JString ''RS256''), (''kid'', JString ''k1'')])"
  "json_parse plain_codec (base64_text plain_codec (base64url_to_base64 ''eyJzdWIiOiJhbGljZSJ9''))
     = Some (JObject [(''sub'', JString ''alice'')])"
  "js_split CHR ''.'' ''garbage'' = [''garbage'']"
  "js_split CHR ''.'' ''e30.!!.c2ln'' = [''e30'', ''!!'', ''c2ln'']"
  "part_value plain_codec ''e30'' = JObject []"
  "part_value plain_codec ''!!'' = could_not_parse"
  by code_simp+

theorem decodeToken_cases_witness:
  "decodeToken plain_codec alice_token =
     \<lparr> d_header = JObject [(''alg'', JString ''RS256''), (''kid'', JString ''k1'')],
       d_payload = JObject [(''sub'', JString ''alice'')], hasSignature = True \<rparr> \<and>
   decodeToken plain_codec ''e30.!!.c2ln'' =
     \<lparr> d_header = JObject [], d_payload = could_not_parse, hasSignature = True \<rparr> \<and>
   decodeToken plain_codec ''garbage'' = invalid_token_format"
proof -
  have valid: "decodeToken plain_codec alice_token =
     \<lparr> d_header = JObject [(''alg'', JString ''RS256''), (''kid'', JString ''k1'')],
       d_payload = JObject [(''sub'', JString ''alice'')], hasSignature = True \<rparr>"
    using decodeToken_cases [of alice_token plain_codec, THEN conjunct1, rule_format,
        of "''eyJhbGciOiJSUzI1NiIsImtpZCI6ImsxIn0''" "''eyJzdWIiOiJhbGljZSJ9''" "''c2ln''"]
      alice_token_facts(1-5)
    by (simp add: alice_token_def)
  have broken: "decodeToken plain_codec ''e30.!!.c2ln'' =
     \<lparr> d_header = JObject [], d_payload = could_not_parse, hasSignature = True \<rparr>"
    using decodeToken_cases [of "''e30.!!.c2ln''" plain_codec, THEN conjunct2, THEN conjunct1,
        rule_format, OF alice_token_facts(7)] alice_token_facts(8,9)
    by simp
  have short: "decodeToken plain_codec ''garbage'' = invalid_token_format"
    using decodeToken_cases [of "''garbage''" plain_codec, THEN conjunct2, THEN conjunct2,
        THEN conjunct1, rule_format, OF alice_token_facts(6)]
    by simp
  from valid broken short show ?thesis by simp
qed

text \<open>
  Claim C6 as stated fails: a token with a missing segment (no signature) and a token
  with a segment that is not JSON do not give the invalid-format sentinel.
\<close>

theorem decodeToken_sentinel_counterexample:
  "js_split CHR ''.'' ''e30.e30'' = [''e30'', ''e30''] \<and>
   decodeToken plain_codec ''e30.e30'' =
     \<lparr> d_header = JObject [], d_payload = JObject [], hasSignature = False \<rparr> \<and>
   decodeToken plain_codec ''e30.e30'' \<noteq> invalid_token_format \<and>
   decodeToken plain_codec ''e30.!!.c2ln'' \<noteq> invalid_token_format"
  by code_simp


section \<open>The router: the middleware chain\<close>

lemma run_handler_frame:
  "invoked (fst (run_handler h s)) = invoked s \<and>
   handler_calls (fst (run_handler h s)) = handler_calls s"
  by (induction h s rule: run_handler.induct) (auto simp: end_response_def)

lemma finalHandler_frame:
  "invoked (fst (finalHandler h s)) = invoked s \<and>
   handler_calls (fst (finalHandler h s)) = Suc (handler_calls s)"
  using run_handler_frame [of h "s\<lparr>handler_calls := Suc (handler_calls s)\<rparr>"]
  by (simp add: finalHandler_def)

lemma exec_Next:
  "exec h i (Next awaited # as) rest s =
     (case (if writableEnded s then (s, None)
            else executeMiddlewareChain h (Suc i) rest s) of
        (s', None) \<Rightarrow> exec h i as rest s'
      | (s', Some e) \<Rightarrow>
          if awaited then (s', Some e)
          else exec h i as rest (s'\<lparr>unhandled := unhandled s' @ [e]\<rparr>))"
  by (simp add: executeMiddlewareChain_def split: list.splits)

lemma exec_never_after_end:
  "never_after_end s \<Longrightarrow> never_after_end (fst (exec h i acts rest s))"
proof (induction h i acts rest s rule: exec.induct)
  case (1 h i rest s)
  then show ?case by simp
next
  case (2 h i n b as rest s)
  then show ?case by (simp add: never_after_end_def end_response_def)
next
  case (3 h i m as rest s)
  then show ?case by simp
next
  case (4 h i awaited as rest s)
  let ?inner = "if writableEnded s then (s, None)
                else (case rest of [] \<Rightarrow> finalHandler h s
                      | m # ms \<Rightarrow> exec h (Suc i) m ms (enter (Suc i) s))"
  obtain s' r where inner: "?inner = (s', r)" by (cases ?inner)
  have clean': "never_after_end s'"
  proof (cases "writableEnded s")
    case True
    with inner "4.prems" show ?thesis by simp
  next
    case False
    show ?thesis
    proof (cases rest)
      case Nil
      with False inner have "s' = fst (finalHandler h s)" by simp
      with "4.prems" finalHandler_frame [of h s] show ?thesis
        by (simp add: never_after_end_def)
    next
      case (Cons m ms)
      have "never_after_end (enter (Suc i) s)"
        using "4.prems" False by (simp add: never_after_end_def enter_def)
      from "4.IH"(1) [OF False Cons this] False Cons inner show ?thesis by simp
    qed
  qed
  show ?case
  proof (cases r)
    case None
    from "4.IH"(2) [OF inner [symmetric] None clean'] inner None show ?thesis by simp
  next
    case (Some e)
    show ?thesis
    proof (cases awaited)
      case True
      with inner Some clean' show ?thesis by simp
    next
      case False
      have "never_after_end (s'\<lparr>unhandled := unhandled s' @ [e]\<rparr>)"
        using clean' by (simp add: never_after_end_def)
      from "4.IH"(3) [OF inner [symmetric] Some False this] inner Some False
      show ?thesis by simp
    qed
  qed
qed

lemma exec_after_end:
  "writableEnded s \<Longrightarrow>
   writableEnded (fst (exec h i acts rest s)) \<and>
   invoked (fst (exec h i acts rest s)) = invoked s \<and>
   handler_calls (fst (exec h i acts rest s)) = handler_calls s"
proof (induction acts arbitrary: s)
  case Nil
  then show ?case by simp
next
  case (Cons a acts)
  show ?case
  proof (cases a)
    case (End n b)
    with Cons.prems show ?thesis by simp
  next
    case (Next awaited)
    with Cons.prems Cons.IH [of s] show ?thesis by (simp add: exec_Next)
  next
    case (Throw m)
    with Cons.prems show ?thesis by simp
  qed
qed

lemma exec_no_next:
  "count_next acts = 0 \<Longrightarrow>
   invoked (fst (exec h i acts rest s)) = invoked s \<and>
   handler_calls (fst (exec h i acts rest s)) = handler_calls s"
proof (induction acts arbitrary: s)
  case Nil
  then show ?case by simp
next
  case (Cons a acts)
  show ?case
  proof (cases a)
    case (End n b)
    with Cons.prems Cons.IH [of "end_response n b s"] show ?thesis
      by (simp add: end_response_def)
  next
    case (Next awaited)
    with Cons.prems show ?thesis by simp
  next
    case (Throw m)
    then show ?thesis by simp
  qed
qed

lemma exec_handler_once:
  "\<forall>m \<in> set rest. count_next m \<le> 1 \<Longrightarrow> count_next acts \<le> 1 \<Longrightarrow>
   handler_calls (fst (exec h i acts rest s)) \<le> Suc (handler_calls s)"
proof (induction h i acts rest s rule: exec.induct)
  case (1 h i rest s)
  then show ?case by simp
next
  case (2 h i n b as rest s)
  then show ?case by (auto simp: end_response_def)
next
  case (3 h i m as rest s)
  then show ?case by simp
next
  case (4 h i awaited as rest s)
  let ?inner = "if writableEnded s then (s, None)
                else (case rest of [] \<Rightarrow> finalHandler h s
                      | m # ms \<Rightarrow> exec h (Suc i) m ms (enter (Suc i) s))"
  obtain s' r where inner: "?inner = (s', r)" by (cases ?inner)
  have zero: "count_next as = 0" using "4.prems"(2) by simp
  have bound: "handler_calls s' \<le> Suc (handler_calls s)"
  proof (cases "writableEnded s")
    case True
    with inner show ?thesis by auto
  next
    case False
    show ?thesis
    proof (cases rest)
      case Nil
      with False inner have "s' = fst (finalHandler h s)" by simp
      with finalHandler_frame [of h s] show ?thesis by simp
    next
      case (Cons m ms)
      have "\<forall>m \<in> set ms. count_next m \<le> 1" "count_next m \<le> 1"
        using "4.prems"(1) Cons by simp_all
      from "4.IH"(1) [OF False Cons this] False Cons inner show ?thesis
        by (simp add: enter_def)
    qed
  qed
  have rest_same: "handler_calls (fst (exec h i as rest t)) = handler_calls t" for t
    using exec_no_next [OF zero] by simp
  show ?case
  proof (cases r)
    case None
    with inner bound rest_same [of s'] show ?thesis by simp
  next
    case (Some e)
    with inner bound rest_same [of "s'\<lparr>unhandled := unhandled s' @ [e]\<rparr>"] show ?thesis
      by (cases awaited) simp_all
  qed
qed

lemma chain_handler_once:
  "\<forall>m \<in> set ms. count_next m \<le> 1 \<Longrightarrow>
   handler_calls (fst (executeMiddlewareChain h i ms s)) \<le> Suc (handler_calls s)"
proof (cases ms)
  case Nil
  then show ?thesis using finalHandler_frame [of h s] by (simp add: executeMiddlewareChain_def)
next
  case (Cons m rest)
  assume "\<forall>m \<in> set ms. count_next m \<le> 1"
  with Cons have "\<forall>m \<in> set rest. count_next m \<le> 1" "count_next m \<le> 1" by simp_all
  from exec_handler_once [OF this, of h i "enter i s"] Cons show ?thesis
    by (simp add: executeMiddlewareChain_def enter_def)
qed

lemma chain_never_after_end:
  "never_after_end s \<Longrightarrow> \<not> writableEnded s \<Longrightarrow>
   never_after_end (fst (executeMiddlewareChain h i ms s))"
proof (cases ms)
  case Nil
  assume "never_after_end s"
  with Nil finalHandler_frame [of h s] show ?thesis
    by (simp add: executeMiddlewareChain_def never_after_end_def)
next
  case (Cons m rest)
  assume "never_after_end s" "\<not> writableEnded s"
  then have "never_after_end (enter i s)" by (simp add: never_after_end_def enter_def)
  from exec_never_after_end [OF this] Cons show ?thesis
    by (simp add: executeMiddlewareChain_def)
qed

lemma dispatch_frame:
  "handler_calls (fst (dispatch mws r s)) =
     handler_calls (fst (executeMiddlewareChain (handler r) 0 mws s)) \<and>
   invoked (fst (dispatch mws r s)) = invoked (fst (executeMiddlewareChain (handler r) 0 mws s))"
proof (cases mws)
  case Nil
  then show ?thesis by (simp add: dispatch_def executeMiddlewareChain_def)
next
  case (Cons m ms)
  obtain s' e where "executeMiddlewareChain (handler r) 0 mws s = (s', e)"
    by (cases "executeMiddlewareChain (handler r) 0 mws s")
  with Cons show ?thesis
    by (cases e) (simp_all add: dispatch_def end_response_def)
qed

lemma match_routes_cases:
  "match_routes mws routes m u s = (False, s, None) \<or>
   (\<exists>r \<in> set routes. match_routes mws routes m u s = (True, dispatch mws r s))"
  by (induction routes) auto

lemma handleRequest_cases:
  "handleRequest mws routes req s = (False, s, None) \<or>
   (\<exists>r \<in> set routes. handleRequest mws routes req s = (True, dispatch mws r s))"
  using match_routes_cases [of mws routes "the (req_method req)" "the (url req)" s]
  by (auto simp: handleRequest_def)

lemma match_routes_first:
  "\<forall>r' \<in> set pre. \<not> route_matches r' m u \<Longrightarrow> route_matches r m u \<Longrightarrow>
   match_routes mws (pre @ r # post) m u s = (True, dispatch mws r s)"
  by (induction pre) auto

lemma chain_Cons:
  "executeMiddlewareChain h i (m # rest) s = exec h i m rest (enter i s)"
  by (simp add: executeMiddlewareChain_def)

lemma chain_throw:
  "\<forall>m \<in> set pre. \<exists>tl. m = Next True # tl \<Longrightarrow> \<not> writableEnded s \<Longrightarrow>
   \<exists>inv. executeMiddlewareChain h i (pre @ (Throw msg # as) # post) s =
           (s\<lparr>invoked := invoked s @ inv\<rparr>, Some (Error msg)) \<and>
         length inv = Suc (length pre)"
proof (induction pre arbitrary: i s)
  case Nil
  then show ?case by (intro exI [of _ "[(i, False)]"]) (simp add: chain_Cons enter_def)
next
  case (Cons m pre)
  then obtain tl where m: "m = Next True # tl" by auto
  let ?rest = "pre @ (Throw msg # as) # post"
  have ne: "\<not> writableEnded (enter i s)" using Cons.prems(2) by (simp add: enter_def)
  have all: "\<forall>m \<in> set pre. \<exists>tl. m = Next True # tl" using Cons.prems(1) by simp
  from Cons.IH [OF all ne, of "Suc i"] obtain inv where
    inner: "executeMiddlewareChain h (Suc i) ?rest (enter i s) =
              ((enter i s)\<lparr>invoked := invoked (enter i s) @ inv\<rparr>, Some (Error msg))"
    and len: "length inv = Suc (length pre)" by blast
  have "executeMiddlewareChain h i ((m # pre) @ (Throw msg # as) # post) s =
          exec h i (Next True # tl) ?rest (enter i s)"
    using m by (simp add: chain_Cons)
  also have "\<dots> = ((enter i s)\<lparr>invoked := invoked (enter i s) @ inv\<rparr>, Some (Error msg))"
    using ne inner by (simp only: exec_Next) simp
  also have "\<dots> = (s\<lparr>invoked := invoked s @ ((i, False) # inv)\<rparr>, Some (Error msg))"
    using Cons.prems(2) by (simp add: enter_def)
  finally show ?case using len by (intro exI [of _ "(i, False) # inv"]) simp
qed

text \<open>
  Claim C9 as stated fails: the chain has no guard against a middleware that invokes its
  continuation twice, so the terminal handler runs twice while the response is open;
  and when a middleware does not await its continuation, a later middleware that throws
  leaves no response at all.
\<close>

theorem router_chain_counterexample:
  "handler_calls (fst (snd (handleRequest [[Next True, Next True]] [sse_route] sse_get fresh))) = 2 \<and>
   written (fst (snd (handleRequest [[Next False], [Throw ''boom'']] [sse_route] sse_get fresh))) = []"
  by code_simp

text \<open>
  Claim C9, amended. For every request handled by the router, with middleware that run
  to completion when called: the terminal handler is invoked at most once provided no
  middleware invokes its continuation more than once; every middleware invocation finds
  the response not yet finalized, a middleware that writes a response invokes nothing
  through its continuation afterwards, and one that never calls its continuation invokes
  nothing; the first route in registration order that matches is the one dispatched; and
  a middleware that throws, when every middleware before it awaits its continuation as
  its first action, leaves the generic 500 response, with no later middleware and no
  handler invoked.
\<close>

theorem router_chain_guarantees:
  "((\<forall>m \<in> set mws. count_next m \<le> 1) \<longrightarrow>
      handler_calls (fst (snd (handleRequest mws routes req fresh))) \<le> 1) \<and>
   never_after_end (fst (snd (handleRequest mws routes req fresh))) \<and>
   (\<not> writableEnded s \<longrightarrow>
      invoked (fst (exec h i (End n b # acts) rest s)) = invoked s \<and>
      handler_calls (fst (exec h i (End n b # acts) rest s)) = handler_calls s) \<and>
   (count_next acts = 0 \<longrightarrow>
      invoked (fst (exec h i acts rest s)) = invoked s \<and>
      handler_calls (fst (exec h i acts rest s)) = handler_calls s) \<and>
   (truthy (url req) \<and> truthy (req_method req) \<and>
    (\<forall>r' \<in> set pre. \<not> route_matches r' (the (req_method req)) (the (url req))) \<and>
    route_matches r (the (req_method req)) (the (url req)) \<longrightarrow>
      handleRequest mws (pre @ r # post) req s = (True, dispatch mws r s)) \<and>
   ((\<forall>m \<in> set before. \<exists>tl. m = Next True # tl) \<longrightarrow>
      written (fst (dispatch (before @ (Throw msg # tail) # after) r fresh)) =
        [(500, ''Internal Server Error'')] \<and>
      handler_calls (fst (dispatch (before @ (Throw msg # tail) # after) r fresh)) = 0 \<and>
      length (invoked (fst (dispatch (before @ (Throw msg # tail) # after) r fresh))) =
        Suc (length before))"
proof (intro conjI impI)
  assume once: "\<forall>m \<in> set mws. count_next m \<le> 1"
  from handleRequest_cases [of mws routes req fresh]
  show "handler_calls (fst (snd (handleRequest mws routes req fresh))) \<le> 1"
  proof
    assume "handleRequest mws routes req fresh = (False, fresh, None)"
    then show ?thesis by (simp add: fresh_def)
  next
    assume "\<exists>r \<in> set routes. handleRequest mws routes req fresh = (True, dispatch mws r fresh)"
    then obtain r where "handleRequest mws routes req fresh = (True, dispatch mws r fresh)"
      by blast
    with dispatch_frame [of mws r fresh] chain_handler_once [OF once, of "handler r" 0 fresh]
    show ?thesis by (simp add: fresh_def)
  qed
next
  have f: "never_after_end fresh" "\<not> writableEnded fresh"
    by (simp_all add: never_after_end_def fresh_def)
  from handleRequest_cases [of mws routes req fresh]
  show "never_after_end (fst (snd (handleRequest mws routes req fresh)))"
  proof
    assume "handleRequest mws routes req fresh = (False, fresh, None)"
    with f show ?thesis by simp
  next
    assume "\<exists>r \<in> set routes. handleRequest mws routes req fresh = (True, dispatch mws r fresh)"
    then obtain r where "handleRequest mws routes req fresh = (True, dispatch mws r fresh)"
      by blast
    with dispatch_frame [of mws r fresh] chain_never_after_end [OF f, of "handler r" 0 mws]
    show ?thesis by (simp add: never_after_end_def)
  qed
next
  assume "\<not> writableEnded s"
  then show "invoked (fst (exec h i (End n b # acts) rest s)) = invoked s"
    using exec_after_end [of "end_response n b s" h i acts rest]
    by (simp add: end_response_def)
next
  assume "\<not> writableEnded s"
  then show "handler_calls (fst (exec h i (End n b # acts) rest s)) = handler_calls s"
    using exec_after_end [of "end_response n b s" h i acts rest]
    by (simp add: end_response_def)
next
  assume "count_next acts = 0"
  then show "invoked (fst (exec h i acts rest s)) = invoked s"
    by (simp add: exec_no_next)
next
  assume "count_next acts = 0"
  then show "handler_calls (fst (exec h i acts rest s)) = handler_calls s"
    by (simp add: exec_no_next)
next
  assume "truthy (url req) \<and> truthy (req_method req) \<and>
    (\<forall>r' \<in> set pre. \<not> route_matches r' (the (req_method req)) (the (url req))) \<and>
    route_matches r (the (req_method req)) (the (url req))"
  then show "handleRequest mws (pre @ r # post) req s = (True, dispatch mws r s)"
    by (simp add: handleRequest_def match_routes_first)
next
  assume a: "\<forall>m \<in> set before. \<exists>tl. m = Next True # tl"
  have f: "\<not> writableEnded fresh" by (simp add: fresh_def)
  from chain_throw [OF a f, of "handler r" 0 msg tail after] obtain inv where
    c: "executeMiddlewareChain (handler r) 0 (before @ (Throw msg # tail) # after) fresh =
          (fresh\<lparr>invoked := invoked fresh @ inv\<rparr>, Some (Error msg))"
    and len: "length inv = Suc (length before)" by blast
  have d: "dispatch (before @ (Throw msg # tail) # after) r fresh =
             (end_response 500 ''Internal Server Error'' (fresh\<lparr>invoked := invoked fresh @ inv\<rparr>),
              None)"
    using c by (simp add: dispatch_def fresh_def)
  show "written (fst (dispatch (before @ (Throw msg # tail) # after) r fresh)) =
        [(500, ''Internal Server Error'')]"
    using d by (simp add: end_response_def fresh_def)
  show "handler_calls (fst (dispatch (before @ (Throw msg # tail) # after) r fresh)) = 0"
    using d by (simp add: end_response_def fresh_def)
  show "length (invoked (fst (dispatch (before @ (Throw msg # tail) # after) r fresh))) =
        Suc (length before)"
    using d len by (simp add: end_response_def fresh_def)
qed

lemma router_examples:
  "count_next [Next False] \<le> 1"
  "\<not> writableEnded fresh"
  "count_next [End 401 ''no''] = 0"
  "truthy (url messages_post)"
  "truthy (req_method messages_post)"
  "\<not> route_matches sse_route (the (req_method messages_post)) (the (url messages_post))"
  "route_matches messages_route (the (req_method messages_post)) (the (url messages_post))"
  by code_simp+

theorem router_chain_guarantees_witness:
  "count_next [Next False] \<le> 1 \<and>
   handler_calls (fst (snd (handleRequest [[Next False]] server_routes messages_post fresh))) \<le> 1 \<and>
   never_after_end (fst (snd (handleRequest [[Next False]] server_routes messages_post fresh))) \<and>
   \<not> writableEnded fresh \<and>
   invoked (fst (exec [] 0 [End 401 ''no'', Next True] [[Throw ''boom'']] fresh)) = invoked fresh \<and>
   handler_calls (fst (exec [] 0 [End 401 ''no'', Next True] [[Throw ''boom'']] fresh)) = 0 \<and>
   count_next [End 401 ''no''] = 0 \<and>
   invoked (fst (exec [] 0 [End 401 ''no''] [[Throw ''boom'']] fresh)) = invoked fresh \<and>
   route_matches messages_route ''POST'' ''/messages?sessionId=s1'' \<and>
   handleRequest [[Next False]] server_routes messages_post fresh =
     (True, dispatch [[Next False]] messages_route fresh) \<and>
   written (fst (dispatch [[Next True], [Throw ''boom''], [End 200 ''late'']] sse_route fresh)) =
     [(500, ''Internal Server Error'')] \<and>
   handler_calls (fst (dispatch [[Next True], [Throw ''boom''], [End 200 ''late'']] sse_route fresh)) = 0 \<and>
   length (invoked (fst (dispatch [[Next True], [Throw ''boom''], [End 200 ''late'']] sse_route fresh))) = 2"
proof -
  note g = router_chain_guarantees
  have w1: "handler_calls (fst (snd (handleRequest [[Next False]] server_routes messages_post fresh))) \<le> 1"
    using g [where mws = "[[Next False]]" and routes = server_routes and req = messages_post,
        THEN conjunct1] router_examples(1)
    by simp
  have w2: "never_after_end (fst (snd (handleRequest [[Next False]] server_routes messages_post fresh)))"
    using g [where mws = "[[Next False]]" and routes = server_routes and req = messages_post,
        THEN conjunct2, THEN conjunct1]
    by simp
  have w3: "invoked (fst (exec [] 0 [End 401 ''no'', Next True] [[Throw ''boom'']] fresh)) = invoked fresh \<and>
            handler_calls (fst (exec [] 0 [End 401 ''no'', Next True] [[Throw ''boom'']] fresh)) = handler_calls fresh"
    using g [where s = fresh and h = "[]" and i = 0 and n = 401 and b = "''no''"
          and acts = "[Next True]" and rest = "[[Throw ''boom'']]",
        THEN conjunct2, THEN conjunct2, THEN conjunct1] router_examples(2)
    by simp
  have w4: "invoked (fst (exec [] 0 [End 401 ''no''] [[Throw ''boom'']] fresh)) = invoked fresh"
    using g [where s = fresh and h = "[]" and i = 0 and acts = "[End 401 ''no'']"
          and rest = "[[Throw ''boom'']]",
        THEN conjunct2, THEN conjunct2, THEN conjunct2, THEN conjunct1] router_examples(3)
    by simp
  have w5: "handleRequest [[Next False]] ([sse_route] @ messages_route # [catch_all_route]) messages_post fresh =
              (True, dispatch [[Next False]] messages_route fresh)"
    using g [where mws = "[[Next False]]" and req = messages_post and s = fresh
          and pre = "[sse_route]" and r = messages_route and post = "[catch_all_route]",
        THEN conjunct2, THEN conjunct2, THEN conjunct2, THEN conjunct2, THEN conjunct1]
      router_examples(4-7)
    by simp
  have w6: "written (fst (dispatch ([[Next True]] @ [Throw ''boom''] # [[End 200 ''late'']]) sse_route fresh)) =
              [(500, ''Internal Server Error'')] \<and>
            handler_calls (fst (dispatch ([[Next True]] @ [Throw ''boom''] # [[End 200 ''late'']]) sse_route fresh)) = 0 \<and>
            length (invoked (fst (dispatch ([[Next True]] @ [Throw ''boom''] # [[End 200 ''late'']]) sse_route fresh))) =
              Suc (length [[Next True]])"
    using g [where before = "[[Next True]]" and msg = "''boom''" and tail = "[]"
          and after = "[[End 200 ''late'']]" and r = sse_route,
        THEN conjunct2, THEN conjunct2, THEN conjunct2, THEN conjunct2, THEN conjunct2]
    by simp
  have m: "route_matches messages_route ''POST'' ''/messages?sessionId=s1''"
    by code_simp
  have hc: "handler_calls fresh = 0" by (simp add: fresh_def)
  from w1 w2 w3 w4 w5 w6 m hc router_examples(1-3) show ?thesis
    by (simp add: server_routes_def)
qed


section \<open>The router: string patterns and the query string\<close>

text \<open>
  Claim C10 as stated fails: the comparison is plain equality on the raw URL, so an
  exact pattern that itself holds a query string matches the URL that carries it.
\<close>

theorem string_patterns_counterexample:
  "\<not> endsWith ''/sse?x=1'' ''*'' \<and> CHR ''?'' \<in> set ''/sse?x=1'' \<and>
   isMatch (PString ''/sse?x=1'') ''/sse?x=1''"
  by code_simp

text \<open>
  Claim C10, amended. String patterns are compared with the raw request URL, the query
  string included. A pattern without a trailing wildcard matches a URL exactly when the
  two are equal: it does not match its own path followed by a query string, nor, when it
  contains no \<open>?\<close> itself, any URL that carries a query string. A pattern with a trailing
  wildcard (other than \<open>*\<close> alone, which matches everything) matches exactly the URLs
  that begin with its prefix, a query string included.
\<close>

theorem string_patterns_match_raw_url:
  "(\<not> endsWith p ''*'' \<longrightarrow> (isMatch (PString p) u \<longleftrightarrow> u = p)) \<and>
   (\<not> endsWith p ''*'' \<longrightarrow> \<not> isMatch (PString p) (p @ ''?'' @ q)) \<and>
   (\<not> endsWith p ''*'' \<and> CHR ''?'' \<notin> set p \<and> CHR ''?'' \<in> set u \<longrightarrow> \<not> isMatch (PString p) u) \<and>
   isMatch (PString (pre @ ''*'')) (pre @ rest) \<and>
   (pre \<noteq> [] \<longrightarrow> (isMatch (PString (pre @ ''*'')) u \<longleftrightarrow> startsWith u pre)) \<and>
   isMatch (PString ''*'') u"
proof (intro conjI impI)
  assume n: "\<not> endsWith p ''*''"
  then have "p \<noteq> ''*''" by (auto simp: endsWith_def)
  with n show "isMatch (PString p) u \<longleftrightarrow> u = p"
    by (auto simp: isMatch_def)
next
  assume n: "\<not> endsWith p ''*''"
  then have "p \<noteq> ''*''" by (auto simp: endsWith_def)
  with n show "\<not> isMatch (PString p) (p @ ''?'' @ q)"
    by (simp add: isMatch_def)
next
  assume a: "\<not> endsWith p ''*'' \<and> CHR ''?'' \<notin> set p \<and> CHR ''?'' \<in> set u"
  then have "p \<noteq> ''*''" by (auto simp: endsWith_def)
  moreover have "p \<noteq> u" using a by auto
  ultimately show "\<not> isMatch (PString p) u"
    using a by (simp add: isMatch_def)
next
  show "isMatch (PString (pre @ ''*'')) (pre @ rest)"
    by (simp add: isMatch_def endsWith_def startsWith_def)
next
  assume "pre \<noteq> []"
  then show "isMatch (PString (pre @ ''*'')) u \<longleftrightarrow> startsWith u pre"
    by (simp add: isMatch_def endsWith_def)
next
  show "isMatch (PString ''*'') u"
    by (simp add: isMatch_def)
qed

lemma pattern_examples:
  "\<not> endsWith ''/sse'' ''*''"
  "CHR ''?'' \<notin> set ''/sse''"
  "CHR ''?'' \<in> set ''/sse?access_token=abc''"
  by code_simp+

theorem string_patterns_match_raw_url_witness:
  "\<not> endsWith ''/sse'' ''*'' \<and>
   \<not> isMatch (PString ''/sse'') ''/sse?access_token=abc'' \<and>
   isMatch (PString ''/messages*'') ''/messages?sessionId=s1''"
  using string_patterns_match_raw_url [where p = "''/sse''" and u = "''/sse?access_token=abc''"
      and pre = "''/messages''" and rest = "''?sessionId=s1''"]
    pattern_examples
  by simp


section \<open>The authorization flow: the callback listener\<close>

lemma settle_keeps: "settled L = Some v \<Longrightarrow> settled (settle w L) = Some v"
  by (simp add: settle_def)

lemma callback_request_settled:
  "settled L = Some v \<Longrightarrow> settled (callback_request parse L u) = Some v"
  by (auto simp: callback_request_def Let_def settle_keeps render_def split: qval.splits)

lemma serve_settled_once:
  "settled L = Some v \<Longrightarrow> settled (foldl (callback_request parse) L us) = Some v"
  by (induction us arbitrary: L) (simp_all add: callback_request_settled)

lemma closed_listener_ignores:
  "\<not> listening L \<Longrightarrow> foldl (callback_request parse) L us = L"
  by (induction us) (simp_all add: callback_request_def)

text \<open>
  Claim C7 against the code. The promise settles at most once (\<open>serve_settled_once\<close>)
  and a listener that was closed handles nothing more (\<open>closed_listener_ignores\<close>), but
  only the success path calls \<open>server.close()\<close>: after a callback with an \<open>error\<close>
  parameter, or without a \<open>code\<close>, the listener is still listening, and a later callback
  is processed (its page is rendered and \<open>resolve\<close> is called on the settled promise).
\<close>

theorem callback_listener_left_open:
  "listening (serve plain_querystring [''/callback?error=access_denied'']) \<and>
   settled (serve plain_querystring [''/callback?error=access_denied'']) =
     Some (Rejected ''Authorization error: access_denied'') \<and>
   listening (serve plain_querystring [''/callback'']) \<and>
   settled (serve plain_querystring [''/callback'']) =
     Some (Rejected ''No authorization code received'') \<and>
   pages (serve plain_querystring [''/callback?error=access_denied'', ''/callback?code=abc'']) =
     [ErrorPage ''access_denied'' [], SuccessPage ''abc...abc''] \<and>
   settle_calls (serve plain_querystring [''/callback?error=access_denied'', ''/callback?code=abc'']) = 2 \<and>
   \<not> listening (serve plain_querystring [''/callback?code=abc''])"
  by code_simp


section \<open>The authorization flow: the token exchange\<close>

lemma exchange_has_token:
  "exchangeCodeForToken W code ep = Inr d \<Longrightarrow> access_token d \<noteq> None"
  by (auto simp: exchangeCodeForToken_def split: sum.splits if_splits option.splits)

text \<open>
  Claim C8. When the token endpoint answers with a status outside 200..299,
  \<open>exchangeCodeForToken\<close> fails with the error
  \<open>Token exchange failed: <status> - <body>\<close>, which carries the status and the body of
  the response, and \<open>startOAuthFlow\<close> fails with the same error: the caller gets no
  token. When it answers 2xx with a JSON body that has a string \<open>access_token\<close>,
  \<open>exchangeCodeForToken\<close> returns the parsed token data and \<open>startOAuthFlow\<close> returns
  the access token.
\<close>

theorem token_exchange_outcomes:
  assumes "authorize W (authorization_endpoint md) = Inr code"
    and "post_form W (token_endpoint md) (CLIENT_ID, CLIENT_SECRET) (tokenRequest code) = Inr resp"
  shows "(\<not> ok resp \<longrightarrow>
            exchangeCodeForToken W code (token_endpoint md) =
              Inl (Error (''Token exchange failed: '' @ dec (resp_status resp) @ '' - '' @
                          resp_body resp)) \<and>
            startOAuthFlow W md =
              Inl (Error (''Token exchange failed: '' @ dec (resp_status resp) @ '' - '' @
                          resp_body resp))) \<and>
         (ok resp \<and> response_json W (resp_body resp) = Some tokenData \<and>
          access_token tokenData = Some t \<longrightarrow>
            exchangeCodeForToken W code (token_endpoint md) = Inr tokenData \<and>
            startOAuthFlow W md = Inr t)"
  using assms by (simp add: exchangeCodeForToken_def startOAuthFlow_def)

lemma stale_facts:
  "authorize double_world (authorization_endpoint stale_metadata) = Inr ''stale-code''"
  "post_form double_world (token_endpoint stale_metadata) (CLIENT_ID, CLIENT_SECRET)
     (tokenRequest ''stale-code'') = Inr \<lparr> resp_status = 400, resp_body = ''invalid_grant'' \<rparr>"
  "\<not> ok \<lparr> resp_status = 400, resp_body = ''invalid_grant'' \<rparr>"
  "dec 400 = ''400''"
  by code_simp+

lemma good_facts:
  "authorize double_world (authorization_endpoint good_metadata) = Inr ''good-code''"
  "post_form double_world (token_endpoint good_metadata) (CLIENT_ID, CLIENT_SECRET)
     (tokenRequest ''good-code'') = Inr \<lparr> resp_status = 200, resp_body = token_body \<rparr>"
  "ok \<lparr> resp_status = 200, resp_body = token_body \<rparr>"
  "response_json double_world token_body =
     Some (JObject [(''access_token'', JString ''tok123''), (''token_type'', JString ''bearer'')])"
  "access_token (JObject [(''access_token'', JString ''tok123''), (''token_type'', JString ''bearer'')])
     = Some ''tok123''"
  by code_simp+

theorem token_exchange_outcomes_witness:
  "authorize double_world (authorization_endpoint stale_metadata) = Inr ''stale-code'' \<and>
   post_form double_world (token_endpoint stale_metadata) (CLIENT_ID, CLIENT_SECRET)
     (tokenRequest ''stale-code'') = Inr \<lparr> resp_status = 400, resp_body = ''invalid_grant'' \<rparr> \<and>
   startOAuthFlow double_world stale_metadata =
     Inl (Error ''Token exchange failed: 400 - invalid_grant'') \<and>
   authorize double_world (authorization_endpoint good_metadata) = Inr ''good-code'' \<and>
   post_form double_world (token_endpoint good_metadata) (CLIENT_ID, CLIENT_SECRET)
     (tokenRequest ''good-code'') = Inr \<lparr> resp_status = 200, resp_body = token_body \<rparr> \<and>
   startOAuthFlow double_world good_metadata = Inr ''tok123''"
  using token_exchange_outcomes [OF stale_facts(1,2)]
    token_exchange_outcomes [OF good_facts(1,2),
      of "JObject [(''access_token'', JString ''tok123''), (''token_type'', JString ''bearer'')]"
         "''tok123''"]
    stale_facts good_facts
  by simp

end
